theory Spec2Isabelle
  imports Main "HOL-Library.AList"
begin

section \<open>JavaScript values\<close>

text \<open>
  A \<open>Date\<close> object as the code observes it: \<open>getTime\<close> orders two dates
  (the comparisons \<open>dob > new Date()\<close> and \<open>dob <= new Date()\<close>), and the three
  local-time getters feed the age computation. An invalid date is \<open>None\<close> wherever a
  date may be invalid.
\<close>

record jsdate =
  getTime :: int
  getFullYear :: int
  getMonth :: int
  getDate :: int

text \<open>
  Values of request bodies, validated data and response bodies. Numbers are the integers;
  arrays are not modelled. An absent key (JavaScript \<open>undefined\<close>) is \<open>None\<close> of a
  lookup. Strings are lists of 8-bit characters, and character classes are the ASCII ones.
\<close>

datatype jsval =
    JNull
  | JBool bool
  | JNum int
  | JStr string
  | JDate "jsdate option"
  | JObj "(string \<times> jsval) list"

type_synonym obj = "(string \<times> jsval) list"

definition obj_get :: "obj \<Rightarrow> string \<Rightarrow> jsval option" where
  "obj_get ob k = map_of ob k"

definition obj_set :: "string \<Rightarrow> jsval \<Rightarrow> obj \<Rightarrow> obj" where
  "obj_set k v ob = AList.update k v ob"

definition obj_delete :: "string \<Rightarrow> obj \<Rightarrow> obj" where
  "obj_delete k ob = AList.delete k ob"

definition obj_keys :: "obj \<Rightarrow> string set" where
  "obj_keys ob = fst ` set ob"

text \<open>JavaScript truthiness of a possibly absent value.\<close>

fun truthy :: "jsval option \<Rightarrow> bool" where
  "truthy None = False"
| "truthy (Some JNull) = False"
| "truthy (Some (JBool b)) = b"
| "truthy (Some (JNum n)) = (n \<noteq> 0)"
| "truthy (Some (JStr s)) = (s \<noteq> [])"
| "truthy (Some (JDate d)) = True"
| "truthy (Some (JObj ob)) = True"

section \<open>Strings\<close>

definition is_digit :: "char \<Rightarrow> bool" where
  "is_digit c = (c \<in> set ''0123456789'')"

definition is_upper_alnum :: "char \<Rightarrow> bool" where
  "is_upper_alnum c = (c \<in> set ''ABCDEFGHIJKLMNOPQRSTUVWXYZ0123456789'')"

definition is_space :: "char \<Rightarrow> bool" where
  "is_space c = (c \<in> set [CHR 0x09, CHR 0x0A, CHR 0x0B, CHR 0x0C, CHR 0x0D, CHR 0x20])"

definition startsWith :: "string \<Rightarrow> string \<Rightarrow> bool" where
  "startsWith s p = (take (length p) s = p)"

text \<open>\<open>String.prototype.trim\<close>, and validator.js \<open>trim\<close> without a character set.\<close>

definition trim :: "string \<Rightarrow> string" where
  "trim s = rev (dropWhile is_space (rev (dropWhile is_space s)))"

definition lower_char :: "char \<Rightarrow> char" where
  "lower_char c =
     (case map_of (zip ''ABCDEFGHIJKLMNOPQRSTUVWXYZ'' ''abcdefghijklmnopqrstuvwxyz'') c of
        Some d \<Rightarrow> d
      | None \<Rightarrow> c)"

definition toLowerCase :: "string \<Rightarrow> string" where
  "toLowerCase s = map lower_char s"

text \<open>validator.js \<open>escape\<close>: the eight replacements, none of which feeds another.\<close>

definition escape_char :: "char \<Rightarrow> string" where
  "escape_char c =
     (if c = CHR ''&'' then ''&amp;''
      else if c = CHR 0x22 then ''&quot;''
      else if c = CHR 0x27 then ''&#x27;''
      else if c = CHR ''<'' then ''&lt;''
      else if c = CHR ''>'' then ''&gt;''
      else if c = CHR ''/'' then ''&#x2F;''
      else if c = CHR 0x5C then ''&#x5C;''
      else if c = CHR 0x60 then ''&#96;''
      else [c])"

definition escape :: "string \<Rightarrow> string" where
  "escape s = concat (map escape_char s)"

fun show_nat :: "nat \<Rightarrow> string" where
  "show_nat n =
     (if n < 10 then [''0123456789'' ! n]
      else show_nat (n div 10) @ [''0123456789'' ! (n mod 10)])"

definition show_int :: "int \<Rightarrow> string" where
  "show_int i = (if i < 0 then ''-'' @ show_nat (nat (- i)) else show_nat (nat i))"

text \<open>The regular expressions of the schemas, as predicates on the whole string.\<close>

definition matches_phone :: "string \<Rightarrow> bool" where
  \<comment> \<open>\<open>/^09\d{9}$/\<close>\<close>
  "matches_phone s = (length s = 11 \<and> take 2 s = ''09'' \<and> list_all is_digit (drop 2 s))"

definition matches_zip :: "string \<Rightarrow> bool" where
  \<comment> \<open>\<open>/^\d{4}$/\<close>\<close>
  "matches_zip s = (length s = 4 \<and> list_all is_digit s)"

definition matches_ymd :: "string \<Rightarrow> bool" where
  \<comment> \<open>\<open>/^\d{4}-\d{2}-\d{2}$/\<close>\<close>
  "matches_ymd s =
     (length s = 10 \<and> list_all is_digit (take 4 s) \<and> s ! 4 = CHR ''-''
      \<and> list_all is_digit (take 2 (drop 5 s)) \<and> s ! 7 = CHR ''-''
      \<and> list_all is_digit (drop 8 s))"

definition matches_generated_id :: "string \<Rightarrow> string \<Rightarrow> bool" where
  \<comment> \<open>\<open>/^PDAO-\d{8}-[A-Z0-9]{5}$/\<close> and \<open>/^FORM-\d{8}-[A-Z0-9]{5}$/\<close>, by prefix\<close>
  "matches_generated_id pre s =
     (length s = length pre + 14 \<and> take (length pre) s = pre
      \<and> list_all is_digit (take 8 (drop (length pre) s))
      \<and> s ! (length pre + 8) = CHR ''-''
      \<and> list_all is_upper_alnum (drop (length pre + 9) s))"

section \<open>Platform and library functions\<close>

text \<open>
  What the code calls and does not define: validator.js, the \<open>Date\<close> constructor and
  number parsing, Zod's e-mail and URL formats, bcrypt, the token signer, and the values
  drawn per request (the clock, a fresh object id, the random user id).
\<close>

record env =
  now :: jsdate
  new_Date :: "jsval \<Rightarrow> jsdate option"
  js_Number :: "string \<Rightarrow> int option"
  date_toISOString :: "jsdate option \<Rightarrow> string"
  date_toString :: "jsdate option \<Rightarrow> string"
  isEmail :: "string \<Rightarrow> bool"
  normalizeEmail :: "string \<Rightarrow> jsval"
  isISO8601 :: "string \<Rightarrow> bool"
  zod_email :: "string \<Rightarrow> bool"
  zod_url :: "string \<Rightarrow> bool"
  bcrypt_hash :: "string \<Rightarrow> string"
  bcrypt_compare :: "string \<Rightarrow> string \<Rightarrow> bool"
  jwt_sign :: "string \<Rightarrow> string option \<Rightarrow> string"
  new_ObjectId :: string
  random_user_id :: string

section \<open>The user document\<close>

text \<open>
  A document of \<open>UserMongooseSchema\<close>. Every path may be unset at run time, so every
  path is an option; nested paths \<open>address.x\<close> are the fields \<open>address_x\<close>.
\<close>

record user_doc =
  doc_id :: string
  user_id :: "string option"
  form_id :: "string option"
  first_name :: "string option"
  middle_name :: "string option"
  last_name :: "string option"
  suffix :: "string option"
  sex :: "string option"
  age :: "int option"
  date_of_birth :: "jsdate option"
  address_street :: "string option"
  address_barangay :: "string option"
  address_city_municipality :: "string option"
  address_province :: "string option"
  address_region :: "string option"
  address_zip_code :: "string option"
  address_country :: "string option"
  address_type :: "string option"
  address_coordinates_lat :: "int option"
  address_coordinates_lng :: "int option"
  contact_number :: "string option"
  avatar_url :: "string option"
  email :: "string option"
  password :: "string option"
  role :: "string option"
  status :: "string option"
  is_verified :: "bool option"
  is_email_verified :: "bool option"
  created_by :: "string option"
  updated_by :: "string option"
  created_at :: "jsdate option"
  updated_at :: "jsdate option"
  version_key :: "int option"

subsection \<open>Schema validation\<close>

type_synonym verr = "string \<times> string"

definition required_string :: "string \<Rightarrow> string \<Rightarrow> string option \<Rightarrow> verr list" where
  "required_string path msg v = (if v = None \<or> v = Some [] then [(path, msg)] else [])"

definition enum_string :: "string \<Rightarrow> string list \<Rightarrow> string option \<Rightarrow> verr list" where
  "enum_string path allowed v =
     (case v of
        None \<Rightarrow> []
      | Some s \<Rightarrow>
          if s \<in> set allowed then []
          else [(path, [CHR 0x60] @ s @ [CHR 0x60] @ '' is not a valid enum value for path ''
                        @ [CHR 0x60] @ path @ [CHR 0x60] @ ''.'')])"

definition contact_number_validator :: "string \<Rightarrow> bool" where
  \<comment> \<open>\<open>/^09\d{9}$/.test(v) && v.length === 11\<close>\<close>
  "contact_number_validator v = (matches_phone v \<and> length v = 11)"

definition validate_contact_number :: "string option \<Rightarrow> verr list" where
  "validate_contact_number v =
     (case required_string ''contact_number'' ''Contact number is required'' v of
        e # es \<Rightarrow> e # es
      | [] \<Rightarrow>
          (case v of
             None \<Rightarrow> []
           | Some s \<Rightarrow>
               if contact_number_validator s then []
               else [(''contact_number'',
                      ''Phone number must start with 09 and have 11 digits total'')]))"

definition mongoose_validate :: "user_doc \<Rightarrow> verr list" where
  "mongoose_validate u =
     required_string ''user_id'' ''Path `user_id` is required.'' (user_id u)
     @ required_string ''first_name'' ''First name is required'' (first_name u)
     @ required_string ''last_name'' ''Last name is required'' (last_name u)
     @ enum_string ''suffix'' [''Jr.'', ''Sr.'', ''II'', ''III'', ''IV'', ''V'', ''''] (suffix u)
     @ enum_string ''sex'' [''Male'', ''Female'', ''Other''] (sex u)
     @ (if date_of_birth u = None then [(''date_of_birth'', ''Date of birth is required'')] else [])
     @ required_string ''address.street'' ''Street is required'' (address_street u)
     @ required_string ''address.barangay'' ''Barangay is required'' (address_barangay u)
     @ required_string ''address.city_municipality'' ''City/Municipality is required''
         (address_city_municipality u)
     @ required_string ''address.province'' ''Province is required'' (address_province u)
     @ required_string ''address.region'' ''Region is required'' (address_region u)
     @ enum_string ''address.type'' [''Permanent'', ''Temporary'', ''Present''] (address_type u)
     @ validate_contact_number (contact_number u)
     @ required_string ''email'' ''Email is required'' (email u)
     @ required_string ''password'' ''Password is required'' (password u)
     @ enum_string ''role'' [''User'', ''Admin'', ''Supervisor'', ''Staff''] (role u)
     @ enum_string ''status'' [''Active'', ''Inactive'', ''Suspended'', ''Pending''] (status u)"

subsection \<open>The hooks that run before a save\<close>

text \<open>The first hook hashes the password when the password path was modified.\<close>

definition presave_hash :: "env \<Rightarrow> bool \<Rightarrow> user_doc \<Rightarrow> user_doc" where
  "presave_hash E password_modified u =
     (if \<not> password_modified then u
      else u\<lparr>password := map_option (bcrypt_hash E) (password u)\<rparr>)"

definition compute_age :: "jsdate \<Rightarrow> jsdate \<Rightarrow> int" where
  "compute_age today birthDate =
     (let years = getFullYear today - getFullYear birthDate;
          monthDiff = getMonth today - getMonth birthDate
      in if monthDiff < 0 \<or> (monthDiff = 0 \<and> getDate today < getDate birthDate)
         then years - 1 else years)"

definition clean_contact_number :: "string \<Rightarrow> string" where
  "clean_contact_number cn =
     (let cleaned = filter is_digit cn;
          cleaned = (if \<not> startsWith cleaned ''0'' \<and> \<not> startsWith cleaned ''63''
                     then ''0'' @ cleaned else cleaned);
          cleaned = (if startsWith cleaned ''63'' \<and> 12 \<le> length cleaned
                     then ''0'' @ drop 2 cleaned else cleaned);
          cleaned = (if 11 < length cleaned then take 11 cleaned else cleaned)
      in cleaned)"

text \<open>
  The second hook: the age from the date of birth, then the contact number. Its middle
  step converts a string date of birth, which a document never holds.
\<close>

definition presave_transform :: "env \<Rightarrow> user_doc \<Rightarrow> user_doc" where
  "presave_transform E u =
     (let u1 = (case date_of_birth u of
                  None \<Rightarrow> u
                | Some d \<Rightarrow> u\<lparr>age := Some (compute_age (now E) d)\<rparr>);
          u2 = (case contact_number u1 of
                  None \<Rightarrow> u1
                | Some cn \<Rightarrow>
                    if cn = [] then u1
                    else u1\<lparr>contact_number := Some (clean_contact_number cn)\<rparr>)
      in u2)"

text \<open>
  \<open>save\<close>. Mongoose registers the schema's validation as the first hook of a save, so
  it runs ahead of the two hooks above, and they run only on a document that passed it.
  A value that could not be cast to its path's type is reported with the validation
  errors.
\<close>

definition mongoose_save ::
  "env \<Rightarrow> bool \<Rightarrow> verr list \<Rightarrow> user_doc \<Rightarrow> verr list + user_doc" where
  "mongoose_save E password_modified cast_errors u =
     (let errs = cast_errors @ mongoose_validate u
      in if errs \<noteq> [] then Inl errs
         else Inr (presave_transform E (presave_hash E password_modified u)))"

section \<open>Zod schemas\<close>

text \<open>
  The schemas of \<open>models/User.ts\<close> are Zod 3 schemas (the handlers read
  \<open>error.errors\<close>). A parse result carries whether parsing was aborted, the issues
  raised and the output. Under Zod 3 a default replaces an absent input and is then
  parsed by the schema it wraps.
\<close>

type_synonym issue = "string list \<times> string"

datatype zcheck =
    MinLength nat "string option"
  | MaxLength nat "string option"
  | Regex "string \<Rightarrow> bool" string
  | Email string
  | Url string

datatype ncheck =
    NInt string
  | NMin int "string option"
  | NMax int "string option"

datatype zod =
    ZString "zcheck list"
  | ZNumber "ncheck list"
  | ZBoolean
  | ZAny
  | ZEnum "string list"
  | ZObject "(string \<times> zod) list"
  | ZOptional zod
  | ZNullable zod
  | ZDefault zod jsval
  | ZRefine zod "jsval \<Rightarrow> bool" string

type_synonym shape = "(string \<times> zod) list"

fun parsed_type :: "jsval option \<Rightarrow> string" where
  "parsed_type None = ''undefined''"
| "parsed_type (Some JNull) = ''null''"
| "parsed_type (Some (JBool b)) = ''boolean''"
| "parsed_type (Some (JNum n)) = ''number''"
| "parsed_type (Some (JStr s)) = ''string''"
| "parsed_type (Some (JDate d)) = ''date''"
| "parsed_type (Some (JObj ob)) = ''object''"

definition invalid_type :: "string list \<Rightarrow> string \<Rightarrow> jsval option \<Rightarrow> issue" where
  "invalid_type path expected v =
     (path, if v = None then ''Required''
            else ''Expected '' @ expected @ '', received '' @ parsed_type v)"

fun joinValues :: "string list \<Rightarrow> string" where
  "joinValues [] = ''''"
| "joinValues [x] = [CHR 0x27] @ x @ [CHR 0x27]"
| "joinValues (x # y # ys) = [CHR 0x27] @ x @ [CHR 0x27] @ '' | '' @ joinValues (y # ys)"

definition msg_or :: "string option \<Rightarrow> string \<Rightarrow> string" where
  "msg_or m d = (case m of Some s \<Rightarrow> s | None \<Rightarrow> d)"

fun string_check :: "env \<Rightarrow> string list \<Rightarrow> string \<Rightarrow> zcheck \<Rightarrow> issue list" where
  "string_check E path s (MinLength n m) =
     (if length s < n
      then [(path, msg_or m (''String must contain at least '' @ show_nat n @ '' character(s)''))]
      else [])"
| "string_check E path s (MaxLength n m) =
     (if n < length s
      then [(path, msg_or m (''String must contain at most '' @ show_nat n @ '' character(s)''))]
      else [])"
| "string_check E path s (Regex p m) = (if p s then [] else [(path, m)])"
| "string_check E path s (Email m) = (if zod_email E s then [] else [(path, m)])"
| "string_check E path s (Url m) = (if zod_url E s then [] else [(path, m)])"

fun number_check :: "string list \<Rightarrow> int \<Rightarrow> ncheck \<Rightarrow> issue list" where
  "number_check path n (NInt m) = []"
| "number_check path n (NMin k m) =
     (if n < k
      then [(path, msg_or m (''Number must be greater than or equal to '' @ show_int k))]
      else [])"
| "number_check path n (NMax k m) =
     (if k < n
      then [(path, msg_or m (''Number must be less than or equal to '' @ show_int k))]
      else [])"

type_synonym zres = "bool \<times> issue list \<times> jsval option"

fun zparse :: "env \<Rightarrow> zod \<Rightarrow> string list \<Rightarrow> jsval option \<Rightarrow> zres"
  and zparse_shape :: "env \<Rightarrow> shape \<Rightarrow> string list \<Rightarrow> obj \<Rightarrow> bool \<times> issue list \<times> obj"
where
  "zparse E (ZString cs) path v =
     (case v of
        Some (JStr s) \<Rightarrow> (False, concat (map (string_check E path s) cs), Some (JStr s))
      | _ \<Rightarrow> (True, [invalid_type path ''string'' v], None))"
| "zparse E (ZNumber cs) path v =
     (case v of
        Some (JNum n) \<Rightarrow> (False, concat (map (number_check path n) cs), Some (JNum n))
      | _ \<Rightarrow> (True, [invalid_type path ''number'' v], None))"
| "zparse E ZBoolean path v =
     (case v of
        Some (JBool b) \<Rightarrow> (False, [], Some (JBool b))
      | _ \<Rightarrow> (True, [invalid_type path ''boolean'' v], None))"
| "zparse E ZAny path v = (False, [], v)"
| "zparse E (ZEnum vals) path v =
     (case v of
        Some (JStr s) \<Rightarrow>
          if s \<in> set vals then (False, [], Some (JStr s))
          else (True, [(path, ''Invalid enum value. Expected '' @ joinValues vals
                              @ '', received '' @ [CHR 0x27] @ s @ [CHR 0x27])], None)
      | _ \<Rightarrow> (True, [invalid_type path (joinValues vals) v], None))"
| "zparse E (ZObject sh) path v =
     (case v of
        Some (JObj ob) \<Rightarrow>
          (case zparse_shape E sh path ob of
             (ab, is, out) \<Rightarrow> (ab, is, if ab then None else Some (JObj out)))
      | _ \<Rightarrow> (True, [invalid_type path ''object'' v], None))"
| "zparse E (ZOptional z) path v =
     (case v of None \<Rightarrow> (False, [], None) | Some x \<Rightarrow> zparse E z path v)"
| "zparse E (ZNullable z) path v =
     (case v of Some JNull \<Rightarrow> (False, [], Some JNull) | _ \<Rightarrow> zparse E z path v)"
| "zparse E (ZDefault z d) path v =
     (case v of None \<Rightarrow> zparse E z path (Some d) | Some x \<Rightarrow> zparse E z path v)"
| "zparse E (ZRefine z p m) path v =
     (case zparse E z path v of
        (ab, is, out) \<Rightarrow>
          if ab then (True, is, None)
          else (case out of
                  Some x \<Rightarrow> (False, is @ (if p x then [] else [(path, m)]), out)
                | None \<Rightarrow> (False, is, out)))"
| "zparse_shape E [] path ob = (False, [], [])"
| "zparse_shape E ((k, z) # sh) path ob =
     (case zparse E z (path @ [k]) (obj_get ob k) of
        (ab, is, out) \<Rightarrow>
          (case zparse_shape E sh path ob of
             (ab', is', outs) \<Rightarrow>
               (ab \<or> ab', is @ is',
                (case out of Some x \<Rightarrow> (k, x) # outs | None \<Rightarrow> outs))))"

text \<open>\<open>schema.parse(data)\<close> of an object schema: the output, or the issues it throws.\<close>

definition zod_parse :: "env \<Rightarrow> shape \<Rightarrow> jsval \<Rightarrow> issue list + obj" where
  "zod_parse E sh data =
     (case data of
        JObj ob \<Rightarrow>
          (case zparse_shape E sh [] ob of
             (ab, is, out) \<Rightarrow> if is = [] then Inr out else Inl is)
      | _ \<Rightarrow> Inl [invalid_type [] ''object'' (Some data)])"

definition pick :: "string list \<Rightarrow> shape \<Rightarrow> shape" where
  "pick ks sh = concat (map (\<lambda>k. case map_of sh k of Some z \<Rightarrow> [(k, z)] | None \<Rightarrow> []) ks)"

definition omit :: "string list \<Rightarrow> shape \<Rightarrow> shape" where
  "omit ks sh = filter (\<lambda>(k, z). k \<notin> set ks) sh"

definition extend_shape :: "shape \<Rightarrow> shape \<Rightarrow> shape" where
  "extend_shape sh aug = fold (\<lambda>(k, z). AList.update k z) aug sh"

definition AddressSchema :: shape where
  "AddressSchema =
     [(''street'', ZString [MinLength 1 (Some ''Street is required''), MaxLength 200 None]),
      (''barangay'', ZString [MinLength 1 (Some ''Barangay is required''), MaxLength 100 None]),
      (''city_municipality'',
         ZString [MinLength 1 (Some ''City/Municipality is required''), MaxLength 100 None]),
      (''province'', ZString [MinLength 1 (Some ''Province is required''), MaxLength 100 None]),
      (''region'', ZString [MinLength 1 (Some ''Region is required''), MaxLength 100 None]),
      (''zip_code'',
         ZDefault (ZOptional (ZString [Regex matches_zip ''ZIP code must be 4 digits'']))
           (JStr '''')),
      (''country'', ZDefault (ZString []) (JStr ''Philippines'')),
      (''type'', ZDefault (ZEnum [''Permanent'', ''Temporary'', ''Present'']) (JStr ''Permanent'')),
      (''coordinates'',
         ZOptional (ZObject
           [(''lat'', ZOptional (ZNumber [NMin (- 90) None, NMax 90 None])),
            (''lng'', ZOptional (ZNumber [NMin (- 180) None, NMax 180 None]))]))]"

definition not_in_future :: "env \<Rightarrow> jsval \<Rightarrow> bool" where
  \<comment> \<open>\<open>new Date(date) <= new Date()\<close>, false for an invalid date\<close>
  "not_in_future E v =
     (case new_Date E v of None \<Rightarrow> False | Some dob \<Rightarrow> getTime dob \<le> getTime (now E))"

definition UserSchema :: "env \<Rightarrow> shape" where
  "UserSchema E =
     [(''_id'', ZOptional ZAny),
      (''user_id'',
         ZDefault (ZOptional (ZString [Regex (matches_generated_id ''PDAO-'')
                                         ''Invalid user ID format'']))
           (JStr (random_user_id E))),
      (''form_id'',
         ZDefault (ZNullable (ZOptional (ZString [Regex (matches_generated_id ''FORM-'')
                                                    ''Invalid form ID format''])))
           JNull),
      (''first_name'',
         ZString [MinLength 1 (Some ''First name is required''),
                  MaxLength 50 (Some ''First name cannot exceed 50 characters'')]),
      (''middle_name'',
         ZDefault (ZOptional (ZString [MaxLength 50 (Some ''Middle name cannot exceed 50 characters'')]))
           (JStr '''')),
      (''last_name'',
         ZString [MinLength 1 (Some ''Last name is required''),
                  MaxLength 50 (Some ''Last name cannot exceed 50 characters'')]),
      (''suffix'',
         ZDefault (ZOptional (ZEnum [''Jr.'', ''Sr.'', ''II'', ''III'', ''IV'', ''V'', '''']))
           (JStr '''')),
      (''sex'', ZDefault (ZEnum [''Male'', ''Female'', ''Other'']) (JStr ''Other'')),
      (''age'',
         ZDefault (ZOptional (ZNumber [NInt ''Age must be an integer'',
                                       NMin 0 (Some ''Age cannot be negative''),
                                       NMax 150 (Some ''Age cannot exceed 150'')]))
           (JNum 0)),
      (''date_of_birth'',
         ZRefine (ZString [Regex matches_ymd ''Date must be in YYYY-MM-DD format''])
           (not_in_future E) ''Date of birth cannot be in the future''),
      (''address'', ZObject AddressSchema),
      (''contact_number'',
         ZString [MinLength 11 (Some ''Phone number must be 11 characters (09XXXXXXXXX)''),
                  MaxLength 11 (Some ''Phone number must be 11 characters (09XXXXXXXXX)''),
                  Regex matches_phone
                    ''Phone number must start with 09 and have 11 digits total'']),
      (''avatar_url'',
         ZDefault (ZNullable (ZOptional (ZString [Url ''Invalid URL format'']))) JNull),
      (''email'',
         ZString [Email ''Invalid email format'',
                  MaxLength 100 (Some ''Email cannot exceed 100 characters'')]),
      (''password'',
         ZString [MinLength 8 (Some ''Password must be at least 8 characters''),
                  MaxLength 100 (Some ''Password cannot exceed 100 characters'')]),
      (''role'', ZDefault (ZEnum [''User'', ''Admin'', ''Supervisor'', ''Staff'']) (JStr ''User'')),
      (''status'',
         ZDefault (ZEnum [''Active'', ''Inactive'', ''Suspended'', ''Pending''])
           (JStr ''Pending'')),
      (''is_verified'', ZDefault ZBoolean (JBool False)),
      (''is_email_verified'', ZDefault ZBoolean (JBool False)),
      (''created_by'', ZDefault (ZNullable (ZOptional (ZString []))) JNull),
      (''updated_by'', ZDefault (ZNullable (ZOptional (ZString []))) JNull)]"

definition UserRegisterSchema :: "env \<Rightarrow> shape" where
  "UserRegisterSchema E =
     pick [''first_name'', ''middle_name'', ''last_name'', ''suffix'', ''sex'',
           ''date_of_birth'', ''address'', ''contact_number'', ''email'', ''password'']
       (UserSchema E)"

definition UserLoginSchema :: shape where
  "UserLoginSchema =
     [(''email'', ZString [Email ''Invalid email format'']),
      (''password'', ZString [MinLength 1 (Some ''Password is required'')])]"

definition UserPublicSchema :: "env \<Rightarrow> shape" where
  "UserPublicSchema E =
     extend_shape (omit [''password'', ''created_by'', ''updated_by''] (UserSchema E))
       [(''full_name'', ZOptional (ZString [])),
        (''age_display'', ZOptional (ZString [])),
        (''is_pwd_verified'', ZOptional ZBoolean)]"

definition validateUserRegister :: "env \<Rightarrow> jsval \<Rightarrow> issue list + obj" where
  "validateUserRegister E data = zod_parse E (UserRegisterSchema E) data"

section \<open>Request validators\<close>

text \<open>
  A validation chain of express-validator: the field it selects and its items in the
  order they were chained. A standard validator or sanitizer receives the value as a
  string; a custom one receives the value itself. Once a chain is \<open>optional\<close>, none of
  its items runs while the value is absent.
\<close>

type_synonym ferror = "string \<times> string"

datatype vitem =
    Validator "string \<Rightarrow> bool" bool string
  | CustomValidator "jsval option \<Rightarrow> string option"
  | Sanitizer "string \<Rightarrow> jsval"
  | CustomSanitizer "jsval option \<Rightarrow> jsval option"
  | Optional

type_synonym chain = "string \<times> vitem list"

definition body :: "string \<Rightarrow> vitem list \<Rightarrow> chain" where
  "body fld items = (fld, items)"

definition notEmpty :: "string \<Rightarrow> vitem" where
  "notEmpty msg = Validator (\<lambda>s. s = []) True msg"

definition isLength :: "nat \<Rightarrow> nat option \<Rightarrow> string \<Rightarrow> vitem" where
  "isLength lo hi msg =
     Validator (\<lambda>s. lo \<le> length s \<and> (case hi of None \<Rightarrow> True | Some h \<Rightarrow> length s \<le> h))
       False msg"

definition isIn :: "string list \<Rightarrow> string \<Rightarrow> vitem" where
  "isIn vals msg = Validator (\<lambda>s. s \<in> set vals) False msg"

definition matches :: "(string \<Rightarrow> bool) \<Rightarrow> string \<Rightarrow> vitem" where
  "matches p msg = Validator p False msg"

definition trim_s :: vitem where
  "trim_s = Sanitizer (\<lambda>s. JStr (trim s))"

definition escape_s :: vitem where
  "escape_s = Sanitizer (\<lambda>s. JStr (escape s))"

definition toLowerCase_s :: vitem where
  "toLowerCase_s =
     CustomSanitizer (\<lambda>v. case v of Some (JStr s) \<Rightarrow> Some (JStr (toLowerCase s)) | _ \<Rightarrow> v)"

definition default_s :: "jsval \<Rightarrow> vitem" where
  "default_s d =
     CustomSanitizer (\<lambda>v. if v = None \<or> v = Some JNull \<or> v = Some (JStr '''') then Some d else v)"

definition dob_not_future :: "env \<Rightarrow> string \<Rightarrow> vitem" where
  \<comment> \<open>throws when \<open>new Date(value) > new Date()\<close>; an invalid date passes\<close>
  "dob_not_future E msg =
     CustomValidator (\<lambda>v. case v of
        None \<Rightarrow> None
      | Some x \<Rightarrow>
          (case new_Date E x of
             None \<Rightarrow> None
           | Some dob \<Rightarrow> if getTime (now E) < getTime dob then Some msg else None))"

fun toString :: "env \<Rightarrow> jsval option \<Rightarrow> string" where
  "toString E None = ''''"
| "toString E (Some JNull) = ''''"
| "toString E (Some (JBool b)) = (if b then ''true'' else ''false'')"
| "toString E (Some (JNum n)) = show_int n"
| "toString E (Some (JStr s)) = s"
| "toString E (Some (JDate d)) = date_toISOString E d"
| "toString E (Some (JObj ob)) = ''[object Object]''"

fun run_item :: "env \<Rightarrow> string \<Rightarrow> vitem \<Rightarrow> jsval option \<times> ferror list
                   \<Rightarrow> jsval option \<times> ferror list" where
  "run_item E fld (Validator f negated msg) (v, es) =
     (v, es @ (if f (toString E v) = negated then [(fld, msg)] else []))"
| "run_item E fld (CustomValidator f) (v, es) =
     (v, es @ (case f v of Some msg \<Rightarrow> [(fld, msg)] | None \<Rightarrow> []))"
| "run_item E fld (Sanitizer f) (v, es) = (Some (f (toString E v)), es)"
| "run_item E fld (CustomSanitizer f) (v, es) = (f v, es)"
| "run_item E fld Optional (v, es) = (v, es)"

fun is_optional :: "vitem \<Rightarrow> bool" where
  "is_optional Optional = True"
| "is_optional _ = False"

fun run_items :: "env \<Rightarrow> string \<Rightarrow> bool \<Rightarrow> vitem list \<Rightarrow> jsval option \<times> ferror list
                    \<Rightarrow> jsval option \<times> ferror list" where
  "run_items E fld opt [] st = st"
| "run_items E fld opt (i # items) (v, es) =
     run_items E fld opt items (if opt \<and> v = None then (v, es) else run_item E fld i (v, es))"

text \<open>Field selection and write-back by dotted path (lodash \<open>get\<close> and \<open>set\<close>).\<close>

fun split_dots :: "string \<Rightarrow> string list" where
  "split_dots [] = [[]]"
| "split_dots (c # cs) =
     (if c = CHR ''.'' then [] # split_dots cs
      else (case split_dots cs of
              w # ws \<Rightarrow> (c # w) # ws
            | [] \<Rightarrow> [[c]]))"

fun get_path :: "obj \<Rightarrow> string list \<Rightarrow> jsval option" where
  "get_path ob [] = Some (JObj ob)"
| "get_path ob [k] = obj_get ob k"
| "get_path ob (k # ks) =
     (case obj_get ob k of Some (JObj inner) \<Rightarrow> get_path inner ks | _ \<Rightarrow> None)"

fun set_path :: "string list \<Rightarrow> jsval \<Rightarrow> obj \<Rightarrow> obj" where
  "set_path [] x ob = ob"
| "set_path [k] x ob = obj_set k x ob"
| "set_path (k # ks) x ob =
     (case obj_get ob k of
        Some (JObj inner) \<Rightarrow> obj_set k (JObj (set_path ks x inner)) ob
      | _ \<Rightarrow> obj_set k (JObj (set_path ks x [])) ob)"

definition run_chain :: "env \<Rightarrow> chain \<Rightarrow> obj \<times> ferror list \<Rightarrow> obj \<times> ferror list" where
  "run_chain E c st =
     (case (c, st) of
        ((fld, items), (req_body, errs)) \<Rightarrow>
          (let path = split_dots fld;
               v = get_path req_body path;
               r = run_items E fld (list_ex is_optional items) items (v, [])
           in ((case fst r of
                  Some x \<Rightarrow> if fst r \<noteq> v then set_path path x req_body else req_body
                | None \<Rightarrow> req_body),
               errs @ snd r)))"

text \<open>The top-level key of the request body that a chain reads and writes.\<close>

definition first_key :: "chain \<Rightarrow> string" where
  "first_key c = hd (split_dots (fst c))"

definition run_chains :: "env \<Rightarrow> chain list \<Rightarrow> obj \<Rightarrow> obj \<times> ferror list" where
  "run_chains E cs req_body = fold (run_chain E) cs (req_body, [])"

definition registerValidator :: "env \<Rightarrow> chain list" where
  "registerValidator E =
     [body ''first_name''
        [notEmpty ''First name is required'',
         isLength 1 (Some 50) ''First name must be 1-50 characters'', trim_s, escape_s],
      body ''middle_name''
        [Optional, default_s (JStr ''''),
         isLength 0 (Some 50) ''Middle name cannot exceed 50 characters'', trim_s, escape_s],
      body ''last_name''
        [notEmpty ''Last name is required'',
         isLength 1 (Some 50) ''Last name must be 1-50 characters'', trim_s, escape_s],
      body ''suffix''
        [Optional, default_s (JStr ''''),
         isIn [''Jr.'', ''Sr.'', ''II'', ''III'', ''IV'', ''V'', ''''] ''Invalid suffix format'',
         trim_s, escape_s],
      body ''email''
        [notEmpty ''Email is required'',
         Validator (isEmail E) False ''Must be a valid email'',
         Sanitizer (normalizeEmail E), toLowerCase_s, trim_s],
      body ''password''
        [notEmpty ''Password is required'',
         isLength 8 None ''Password must be at least 8 characters'',
         isLength 0 (Some 100) ''Password cannot exceed 100 characters''],
      body ''date_of_birth''
        [notEmpty ''Date of birth is required'',
         Validator (isISO8601 E) False ''Must be a valid date (YYYY-MM-DD)'',
         dob_not_future E ''Date of birth cannot be in the future''],
      body ''sex''
        [notEmpty ''Sex is required'',
         isIn [''Male'', ''Female'', ''Other''] ''Invalid sex value''],
      body ''contact_number''
        [notEmpty ''Contact number is required'',
         matches matches_phone
           ''Phone number must be exactly 11 digits starting with 09 (09XXXXXXXXX)'',
         isLength 11 (Some 11) ''Phone number must be exactly 11 characters'', trim_s],
      body ''address.street''
        [notEmpty ''Street is required'',
         isLength 0 (Some 200) ''Street cannot exceed 200 characters'', trim_s, escape_s],
      body ''address.barangay''
        [notEmpty ''Barangay is required'',
         isLength 0 (Some 100) ''Barangay cannot exceed 100 characters'', trim_s, escape_s],
      body ''address.city_municipality''
        [notEmpty ''City/Municipality is required'',
         isLength 0 (Some 100) ''City/Municipality cannot exceed 100 characters'',
         trim_s, escape_s],
      body ''address.province''
        [notEmpty ''Province is required'',
         isLength 0 (Some 100) ''Province cannot exceed 100 characters'', trim_s, escape_s],
      body ''address.region''
        [notEmpty ''Region is required'',
         isLength 0 (Some 100) ''Region cannot exceed 100 characters'', trim_s, escape_s],
      body ''address.zip_code''
        [Optional, default_s (JStr ''''),
         matches matches_zip ''ZIP code must be 4 digits'', trim_s],
      body ''address.country'' [Optional, default_s (JStr ''Philippines''), trim_s],
      body ''address.type''
        [Optional, default_s (JStr ''Permanent''),
         isIn [''Permanent'', ''Temporary'', ''Present'']
           ''Address type must be Permanent, Temporary, or Present''],
      body ''form_id''
        [Optional,
         CustomValidator (\<lambda>v. Some ''form_id cannot be set during registration'')]]"

definition loginValidator :: "env \<Rightarrow> chain list" where
  "loginValidator E =
     [body ''email''
        [notEmpty ''Email is required'',
         Validator (isEmail E) False ''Must be a valid email'',
         Sanitizer (normalizeEmail E), toLowerCase_s, trim_s],
      body ''password'' [notEmpty ''Password is required'']]"

text \<open>The e-mail chain, which both validators hold in the same words.\<close>

definition email_chain :: "env \<Rightarrow> chain" where
  "email_chain E =
     body ''email''
       [notEmpty ''Email is required'',
        Validator (isEmail E) False ''Must be a valid email'',
        Sanitizer (normalizeEmail E), toLowerCase_s, trim_s]"


section \<open>Responses\<close>

record payload =
  user :: obj
  token :: string

record response =
  status_code :: nat
  success :: bool
  message :: string
  field :: "string option"
  errors :: "(string \<times> string) list option"
  data :: "payload option"

definition reply :: "nat \<Rightarrow> bool \<Rightarrow> string \<Rightarrow> response" where
  "reply code ok msg =
     \<lparr>status_code = code, success = ok, message = msg, field = None, errors = None,
      data = None\<rparr>"

text \<open>
  The \<open>validate\<close> middleware: \<open>None\<close> hands the request on to the controller
  (\<open>next()\<close>), \<open>Some\<close> is the response it sends itself.
\<close>

definition validate :: "ferror list \<Rightarrow> response option" where
  "validate errs =
     (if errs \<noteq> [] then
        (if list_ex (\<lambda>e. fst e = ''form_id'') errs then
           Some ((reply 400 False ''Invalid registration data'')
                   \<lparr>errors := Some [(''form_id'',
                       ''form_id is automatically generated and cannot be provided'')]\<rparr>)
         else Some ((reply 400 False ''Validation failed'')\<lparr>errors := Some errs\<rparr>))
      else None)"

text \<open>The answer to a registration that carries a form id.\<close>

definition form_id_rejected :: response where
  "form_id_rejected =
     \<lparr>status_code = 400, success = False, message = ''Invalid registration data'',
      field = None,
      errors = Some [(''form_id'', ''form_id is automatically generated and cannot be provided'')],
      data = None\<rparr>"

section \<open>Creating and finding documents\<close>

text \<open>
  Casting a value to the type of its path, as \<open>new UserModel(data)\<close> does: an absent
  value takes the path's default, \<open>null\<close> stays unset, and a value that cannot be cast
  leaves the path unset and is reported when the document is validated.
\<close>

definition cast_error :: "string \<Rightarrow> string \<Rightarrow> verr" where
  "cast_error ty path = (path, ''Cast to '' @ ty @ '' failed at path '' @ path)"

fun castString :: "env \<Rightarrow> string \<Rightarrow> string option \<Rightarrow> jsval option
                     \<Rightarrow> verr list \<times> string option" where
  "castString E path dflt None = ([], dflt)"
| "castString E path dflt (Some JNull) = ([], None)"
| "castString E path dflt (Some (JStr s)) = ([], Some s)"
| "castString E path dflt (Some (JNum n)) = ([], Some (show_int n))"
| "castString E path dflt (Some (JBool b)) = ([], Some (if b then ''true'' else ''false''))"
| "castString E path dflt (Some (JDate d)) = ([], Some (date_toString E d))"
| "castString E path dflt (Some (JObj ob)) =
     (case obj_get ob ''_id'' of
        Some (JStr s) \<Rightarrow> if s \<noteq> [] then ([], Some s) else ([cast_error ''string'' path], None)
      | _ \<Rightarrow> ([cast_error ''string'' path], None))"

fun castNumber :: "env \<Rightarrow> string \<Rightarrow> int option \<Rightarrow> jsval option \<Rightarrow> verr list \<times> int option" where
  "castNumber E path dflt None = ([], dflt)"
| "castNumber E path dflt (Some JNull) = ([], None)"
| "castNumber E path dflt (Some (JNum n)) = ([], Some n)"
| "castNumber E path dflt (Some (JStr s)) =
     (if s = [] then ([], None)
      else (case js_Number E s of
              Some n \<Rightarrow> ([], Some n)
            | None \<Rightarrow> ([cast_error ''Number'' path], None)))"
| "castNumber E path dflt (Some (JBool b)) = ([], Some (if b then 1 else 0))"
| "castNumber E path dflt (Some (JDate d)) =
     (case d of
        Some x \<Rightarrow> ([], Some (getTime x))
      | None \<Rightarrow> ([cast_error ''Number'' path], None))"
| "castNumber E path dflt (Some (JObj ob)) = ([cast_error ''Number'' path], None)"

fun castBoolean :: "string \<Rightarrow> bool option \<Rightarrow> jsval option \<Rightarrow> verr list \<times> bool option" where
  "castBoolean path dflt None = ([], dflt)"
| "castBoolean path dflt (Some JNull) = ([], None)"
| "castBoolean path dflt (Some (JBool b)) = ([], Some b)"
| "castBoolean path dflt (Some (JNum n)) =
     (if n = 1 then ([], Some True) else if n = 0 then ([], Some False)
      else ([cast_error ''Boolean'' path], None))"
| "castBoolean path dflt (Some (JStr s)) =
     (if s \<in> set [''true'', ''1'', ''yes''] then ([], Some True)
      else if s \<in> set [''false'', ''0'', ''no''] then ([], Some False)
      else ([cast_error ''Boolean'' path], None))"
| "castBoolean path dflt (Some (JDate d)) = ([cast_error ''Boolean'' path], None)"
| "castBoolean path dflt (Some (JObj ob)) = ([cast_error ''Boolean'' path], None)"

fun castDate :: "env \<Rightarrow> string \<Rightarrow> jsval option \<Rightarrow> verr list \<times> jsdate option" where
  "castDate E path None = ([], None)"
| "castDate E path (Some JNull) = ([], None)"
| "castDate E path (Some (JDate d)) =
     (case d of Some x \<Rightarrow> ([], Some x) | None \<Rightarrow> ([cast_error ''date'' path], None))"
| "castDate E path (Some (JBool b)) = ([cast_error ''date'' path], None)"
| "castDate E path (Some (JStr s)) =
     (if s = [] then ([], None)
      else (case new_Date E (JStr s) of
              Some x \<Rightarrow> ([], Some x)
            | None \<Rightarrow> ([cast_error ''date'' path], None)))"
| "castDate E path (Some v) =
     (case new_Date E v of
        Some x \<Rightarrow> ([], Some x)
      | None \<Rightarrow> ([cast_error ''date'' path], None))"

fun nested :: "string \<Rightarrow> jsval option \<Rightarrow> verr list \<times> obj" where
  "nested path None = ([], [])"
| "nested path (Some JNull) = ([], [])"
| "nested path (Some (JObj ob)) = ([], ob)"
| "nested path (Some v) = ([cast_error ''Object'' path], [])"

text \<open>
  The document built from the data handed to \<open>UserModel.create\<close>, with the cast errors.
  Keys outside the schema are dropped; the e-mail setters trim and lower-case.
\<close>

definition mongoose_new :: "env \<Rightarrow> obj \<Rightarrow> verr list \<times> user_doc" where
  "mongoose_new E ob =
     (let S = (\<lambda>k dflt. castString E k dflt (obj_get ob k));
          B = (\<lambda>k dflt. castBoolean k dflt (obj_get ob k));
          a = nested ''address'' (obj_get ob ''address'');
          A = (\<lambda>k dflt. castString E (''address.'' @ k) dflt (obj_get (snd a) k));
          c = nested ''address.coordinates'' (obj_get (snd a) ''coordinates'');
          C = (\<lambda>k. castNumber E (''address.coordinates.'' @ k) None (obj_get (snd c) k));
          c_age = castNumber E ''age'' (Some 0) (obj_get ob ''age'');
          c_dob = castDate E ''date_of_birth'' (obj_get ob ''date_of_birth'');
          c_email = S ''email'' None
      in (fst (S ''user_id'' (Some (random_user_id E))) @ fst (S ''form_id'' None)
          @ fst (S ''first_name'' None) @ fst (S ''middle_name'' (Some ''''))
          @ fst (S ''last_name'' None) @ fst (S ''suffix'' (Some ''''))
          @ fst (S ''sex'' (Some ''Other'')) @ fst c_age @ fst c_dob @ fst a
          @ fst (A ''street'' None) @ fst (A ''barangay'' None)
          @ fst (A ''city_municipality'' None) @ fst (A ''province'' None)
          @ fst (A ''region'' None) @ fst (A ''zip_code'' (Some ''''))
          @ fst (A ''country'' (Some ''Philippines'')) @ fst (A ''type'' (Some ''Permanent''))
          @ fst c @ fst (C ''lat'') @ fst (C ''lng'')
          @ fst (S ''contact_number'' None) @ fst (S ''avatar_url'' None) @ fst c_email
          @ fst (S ''password'' None) @ fst (S ''role'' (Some ''User''))
          @ fst (S ''status'' (Some ''Pending'')) @ fst (B ''is_verified'' (Some False))
          @ fst (B ''is_email_verified'' (Some False)) @ fst (S ''created_by'' None)
          @ fst (S ''updated_by'' None),
          \<lparr>doc_id = new_ObjectId E,
           user_id = snd (S ''user_id'' (Some (random_user_id E))),
           form_id = snd (S ''form_id'' None),
           first_name = snd (S ''first_name'' None),
           middle_name = snd (S ''middle_name'' (Some '''')),
           last_name = snd (S ''last_name'' None),
           suffix = snd (S ''suffix'' (Some '''')),
           sex = snd (S ''sex'' (Some ''Other'')),
           age = snd c_age,
           date_of_birth = snd c_dob,
           address_street = snd (A ''street'' None),
           address_barangay = snd (A ''barangay'' None),
           address_city_municipality = snd (A ''city_municipality'' None),
           address_province = snd (A ''province'' None),
           address_region = snd (A ''region'' None),
           address_zip_code = snd (A ''zip_code'' (Some '''')),
           address_country = snd (A ''country'' (Some ''Philippines'')),
           address_type = snd (A ''type'' (Some ''Permanent'')),
           address_coordinates_lat = snd (C ''lat''),
           address_coordinates_lng = snd (C ''lng''),
           contact_number = snd (S ''contact_number'' None),
           avatar_url = snd (S ''avatar_url'' None),
           email = map_option (\<lambda>s. toLowerCase (trim s)) (snd c_email),
           password = snd (S ''password'' None),
           role = snd (S ''role'' (Some ''User'')),
           status = snd (S ''status'' (Some ''Pending'')),
           is_verified = snd (B ''is_verified'' (Some False)),
           is_email_verified = snd (B ''is_email_verified'' (Some False)),
           created_by = snd (S ''created_by'' None),
           updated_by = snd (S ''updated_by'' None),
           created_at = None, updated_at = None, version_key = None\<rparr>))"

datatype thrown =
    ZodError "issue list"
  | MongoDuplicateKey string
  | ValidationError "verr list"
  | TypeError

text \<open>The unique indexes: \<open>user_id\<close>, \<open>contact_number\<close> and \<open>email\<close>.\<close>

definition duplicate_key :: "user_doc list \<Rightarrow> user_doc \<Rightarrow> string option" where
  "duplicate_key db u =
     (if list_ex (\<lambda>d. user_id d = user_id u) db then Some ''user_id''
      else if list_ex (\<lambda>d. contact_number d = contact_number u) db then Some ''contact_number''
      else if list_ex (\<lambda>d. email d = email u) db then Some ''email''
      else None)"

definition mongoose_create :: "env \<Rightarrow> user_doc list \<Rightarrow> obj \<Rightarrow> thrown + user_doc" where
  "mongoose_create E db ob =
     (case mongoose_new E ob of
        (cast_errors, u) \<Rightarrow>
          (case mongoose_save E True cast_errors u of
             Inl errs \<Rightarrow> Inl (ValidationError errs)
           | Inr saved \<Rightarrow>
               (let stored = saved\<lparr>created_at := Some (now E), updated_at := Some (now E),
                                   version_key := Some 0\<rparr>
                in case duplicate_key db stored of
                     Some k \<Rightarrow> Inl (MongoDuplicateKey k)
                   | None \<Rightarrow> Inr stored)))"

text \<open>
  \<open>findOne\<close> by one string path. The query value goes through the path's setters, which
  for \<open>email\<close> trim and lower-case; validated data always holds a string here.
\<close>

definition findOne_email :: "user_doc list \<Rightarrow> jsval option \<Rightarrow> user_doc option" where
  "findOne_email db v =
     (case v of
        Some (JStr s) \<Rightarrow> find (\<lambda>d. email d = Some (toLowerCase (trim s))) db
      | _ \<Rightarrow> None)"

definition findOne_contact_number :: "user_doc list \<Rightarrow> jsval option \<Rightarrow> user_doc option" where
  "findOne_contact_number db v =
     (case v of
        Some (JStr s) \<Rightarrow> find (\<lambda>d. contact_number d = Some s) db
      | _ \<Rightarrow> None)"

section \<open>Serialising a user\<close>

definition js_str :: "string option \<Rightarrow> jsval" where
  "js_str v = (case v of Some s \<Rightarrow> JStr s | None \<Rightarrow> JNull)"

definition js_num :: "int option \<Rightarrow> jsval" where
  "js_num v = (case v of Some n \<Rightarrow> JNum n | None \<Rightarrow> JNull)"

definition js_bool :: "bool option \<Rightarrow> jsval" where
  "js_bool v = (case v of Some b \<Rightarrow> JBool b | None \<Rightarrow> JNull)"

definition js_date :: "jsdate option \<Rightarrow> jsval" where
  "js_date v = (case v of Some d \<Rightarrow> JDate (Some d) | None \<Rightarrow> JNull)"

definition address_of :: "user_doc \<Rightarrow> jsval" where
  "address_of u =
     JObj [(''street'', js_str (address_street u)),
           (''barangay'', js_str (address_barangay u)),
           (''city_municipality'', js_str (address_city_municipality u)),
           (''province'', js_str (address_province u)),
           (''region'', js_str (address_region u)),
           (''zip_code'', js_str (address_zip_code u)),
           (''country'', js_str (address_country u)),
           (''type'', js_str (address_type u)),
           (''coordinates'', JObj [(''lat'', js_num (address_coordinates_lat u)),
                                   (''lng'', js_num (address_coordinates_lng u))])]"

definition toObject :: "user_doc \<Rightarrow> obj" where
  "toObject u =
     [(''_id'', JStr (doc_id u)),
      (''user_id'', js_str (user_id u)),
      (''form_id'', js_str (form_id u)),
      (''first_name'', js_str (first_name u)),
      (''middle_name'', js_str (middle_name u)),
      (''last_name'', js_str (last_name u)),
      (''suffix'', js_str (suffix u)),
      (''sex'', js_str (sex u)),
      (''age'', js_num (age u)),
      (''date_of_birth'', js_date (date_of_birth u)),
      (''address'', address_of u),
      (''contact_number'', js_str (contact_number u)),
      (''avatar_url'', js_str (avatar_url u)),
      (''email'', js_str (email u)),
      (''password'', js_str (password u)),
      (''role'', js_str (role u)),
      (''status'', js_str (status u)),
      (''is_verified'', js_bool (is_verified u)),
      (''is_email_verified'', js_bool (is_email_verified u)),
      (''created_by'', js_str (created_by u)),
      (''updated_by'', js_str (updated_by u)),
      (''created_at'', js_date (created_at u)),
      (''updated_at'', js_date (updated_at u)),
      (''__v'', js_num (version_key u))]"

definition toJSON :: "user_doc \<Rightarrow> obj" where
  "toJSON u = obj_delete ''__v'' (obj_delete ''password'' (toObject u))"

text \<open>
  \<open>HybridValidator.sanitizeUser\<close> and \<open>DataTransformer.toPlain\<close> take a document
  (\<open>Inl\<close>) or an object that is already plain (\<open>Inr\<close>).
\<close>

definition sanitizeUser :: "user_doc + obj \<Rightarrow> obj" where
  "sanitizeUser u =
     (let userObj = (case u of Inl d \<Rightarrow> toObject d | Inr ob \<Rightarrow> ob)
      in filter (\<lambda>kv. fst kv \<noteq> ''password'' \<and> fst kv \<noteq> ''__v'') userObj)"

definition toPlain :: "user_doc + obj \<Rightarrow> obj" where
  "toPlain document =
     (let ob = (case document of Inl d \<Rightarrow> toObject d | Inr pl \<Rightarrow> pl)
      in obj_delete ''password'' (obj_delete ''__v'' ob))"

definition sanitizeUserForPublic :: "env \<Rightarrow> obj \<Rightarrow> issue list + obj" where
  "sanitizeUserForPublic E u =
     (case zod_parse E (UserPublicSchema E) (JObj u) of
        Inl issues \<Rightarrow> Inl issues
      | Inr publicUser \<Rightarrow>
          (let age_text =
                 (case obj_get u ''date_of_birth'' of
                    None \<Rightarrow> ''0''
                  | Some dob \<Rightarrow>
                      if truthy (Some dob)
                      then (case new_Date E dob of
                              Some birthDate \<Rightarrow> show_int (compute_age (now E) birthDate)
                            | None \<Rightarrow> ''NaN'')
                      else ''0'');
               part = (\<lambda>k. toString E (obj_get u k));
               fullName =
                 (if truthy (obj_get u ''first_name'') then part ''first_name'' else '''')
                 @ '' ''
                 @ (if truthy (obj_get u ''middle_name'') then part ''middle_name'' @ '' ''
                    else '''')
                 @ (if truthy (obj_get u ''last_name'') then part ''last_name'' else '''')
                 @ (if truthy (obj_get u ''suffix'') then '' '' @ part ''suffix'' else '''');
               r1 = obj_set ''age_display'' (JStr (age_text @ '' years'')) publicUser;
               r2 = obj_set ''full_name'' (JStr (trim fullName)) r1
           in Inr (case obj_get u ''is_verified'' of
                     Some v \<Rightarrow> obj_set ''is_pwd_verified'' v r2
                   | None \<Rightarrow> r2)))"

section \<open>The controllers\<close>

text \<open>
  \<open>transformForMongoose\<close>. Calling \<open>replace\<close> on a contact number that is not a string
  throws.
\<close>

definition transform_contact_number :: "string \<Rightarrow> string" where
  "transform_contact_number cn =
     (let phone = filter is_digit cn;
          phone = (if startsWith phone ''63'' \<and> 12 \<le> length phone
                   then ''0'' @ drop 2 phone else phone);
          phone = (if \<not> startsWith phone ''0'' \<and> length phone = 10
                   then ''0'' @ phone else phone)
      in take 11 phone)"

definition transformForMongoose :: "env \<Rightarrow> obj \<Rightarrow> thrown + obj" where
  "transformForMongoose E data0 =
     (let t = (if truthy (obj_get data0 ''form_id'') then obj_delete ''form_id'' data0
               else data0);
          t = obj_set ''form_id'' JNull t;
          t = (case obj_get t ''date_of_birth'' of
                 Some (JStr s) \<Rightarrow>
                   if s \<noteq> [] then obj_set ''date_of_birth'' (JDate (new_Date E (JStr s))) t
                   else t
               | _ \<Rightarrow> t)
      in if truthy (obj_get t ''contact_number'')
         then (case obj_get t ''contact_number'' of
                 Some (JStr cn) \<Rightarrow>
                   Inr (obj_set ''contact_number'' (JStr (transform_contact_number cn)) t)
               | _ \<Rightarrow> Inl TypeError)
         else Inr t)"

definition join_dots :: "string list \<Rightarrow> string" where
  "join_dots path = (case path of [] \<Rightarrow> '''' | p # ps \<Rightarrow> foldl (\<lambda>acc k. acc @ ''.'' @ k) p ps)"

definition generateToken :: "env \<Rightarrow> string \<Rightarrow> string option \<Rightarrow> string" where
  "generateToken E userId r = jwt_sign E userId r"

definition register_userResponse :: "user_doc \<Rightarrow> obj" where
  "register_userResponse u =
     [(''_id'', JStr (doc_id u)),
      (''user_id'', js_str (user_id u)),
      (''first_name'', js_str (first_name u)),
      (''middle_name'', js_str (middle_name u)),
      (''last_name'', js_str (last_name u)),
      (''suffix'', js_str (suffix u)),
      (''sex'', js_str (sex u)),
      (''age'', js_num (age u)),
      (''date_of_birth'', js_date (date_of_birth u)),
      (''address'', address_of u),
      (''contact_number'', js_str (contact_number u)),
      (''email'', js_str (email u)),
      (''role'', js_str (role u)),
      (''status'', js_str (status u)),
      (''is_verified'', js_bool (is_verified u)),
      (''is_email_verified'', js_bool (is_email_verified u)),
      (''created_at'', js_date (created_at u)),
      (''updated_at'', js_date (updated_at u))]"

definition login_userResponse :: "user_doc \<Rightarrow> obj" where
  "login_userResponse u =
     [(''_id'', JStr (doc_id u)),
      (''user_id'', js_str (user_id u)),
      (''form_id'', js_str (form_id u)),
      (''first_name'', js_str (first_name u)),
      (''middle_name'', js_str (middle_name u)),
      (''last_name'', js_str (last_name u)),
      (''suffix'', js_str (suffix u)),
      (''sex'', js_str (sex u)),
      (''age'', js_num (age u)),
      (''date_of_birth'', js_date (date_of_birth u)),
      (''address'', address_of u),
      (''contact_number'', js_str (contact_number u)),
      (''email'', js_str (email u)),
      (''role'', js_str (role u)),
      (''status'', js_str (status u)),
      (''is_verified'', js_bool (is_verified u)),
      (''is_email_verified'', js_bool (is_email_verified u)),
      (''created_at'', js_date (created_at u)),
      (''updated_at'', js_date (updated_at u))]"

text \<open>What the \<open>catch\<close> block of \<open>register\<close> answers to each thrown error.\<close>

definition register_catch :: "thrown \<Rightarrow> response" where
  "register_catch e =
     (case e of
        MongoDuplicateKey k \<Rightarrow>
          if k = ''email'' then
            (reply 400 False
               ''This email is already registered. Please use a different email or try logging in.'')
              \<lparr>field := Some ''email''\<rparr>
          else if k = ''contact_number'' then
            (reply 400 False
               ''This contact number is already registered. Please use a different number.'')
              \<lparr>field := Some ''contact_number''\<rparr>
          else if k = ''user_id'' then
            (reply 400 False ''Registration failed. Please try again.'')
              \<lparr>field := Some ''user_id''\<rparr>
          else reply 400 False ''Registration failed. This information is already registered.''
      | ZodError issues \<Rightarrow>
          (reply 400 False ''Validation failed'')
            \<lparr>errors := Some (map (\<lambda>i. (join_dots (fst i), snd i)) issues)\<rparr>
      | ValidationError errs \<Rightarrow> (reply 400 False ''Validation error'')\<lparr>errors := Some errs\<rparr>
      | TypeError \<Rightarrow> reply 500 False ''Registration failed. Please try again later.'')"

text \<open>
  A controller returns its response and the collection afterwards. \<open>register\<close> appends
  the document it created, if any.
\<close>

definition forced_fields :: "obj \<Rightarrow> obj" where
  "forced_fields mongooseData =
     obj_set ''role'' (JStr ''User'')
       (obj_set ''status'' (JStr ''Pending'')
          (obj_set ''is_email_verified'' (JBool False)
             (obj_set ''is_verified'' (JBool False)
                (obj_set ''form_id'' JNull mongooseData))))"

definition register :: "env \<Rightarrow> user_doc list \<Rightarrow> obj \<Rightarrow> response \<times> user_doc list" where
  "register E db req_body =
     (case validateUserRegister E (JObj req_body) of
        Inl issues \<Rightarrow> (register_catch (ZodError issues), db)
      | Inr userData \<Rightarrow>
          if findOne_email db (obj_get userData ''email'') \<noteq> None then
            ((reply 400 False
                ''This email is already registered. Please use a different email or try logging in.'')
               \<lparr>field := Some ''email''\<rparr>, db)
          else if findOne_contact_number db (obj_get userData ''contact_number'') \<noteq> None then
            ((reply 400 False
                ''This contact number is already registered. Please use a different number.'')
               \<lparr>field := Some ''contact_number''\<rparr>, db)
          else
            (case transformForMongoose E userData of
               Inl e \<Rightarrow> (register_catch e, db)
             | Inr mongooseData \<Rightarrow>
                 (case mongoose_create E db (forced_fields mongooseData) of
                    Inl e \<Rightarrow> (register_catch e, db)
                  | Inr created \<Rightarrow>
                      ((reply 201 True
                          ''Registration successful! Please check your email for verification instructions.'')
                         \<lparr>data := Some \<lparr>user = register_userResponse created,
                                         token = generateToken E (doc_id created) (role created)\<rparr>\<rparr>,
                       db @ [created]))))"

definition login_catch :: "thrown \<Rightarrow> response" where
  "login_catch e =
     (case e of
        ZodError issues \<Rightarrow>
          (reply 400 False ''Validation failed'')
            \<lparr>errors := Some (map (\<lambda>i. (join_dots (fst i), snd i)) issues)\<rparr>
      | _ \<Rightarrow> reply 500 False ''Login failed. Please try again later.'')"

definition comparePassword :: "env \<Rightarrow> user_doc \<Rightarrow> jsval option \<Rightarrow> thrown + bool" where
  "comparePassword E u candidate =
     (case (candidate, password u) of
        (Some (JStr c), Some h) \<Rightarrow> Inr (bcrypt_compare E c h)
      | _ \<Rightarrow> Inl TypeError)"

definition login :: "env \<Rightarrow> user_doc list \<Rightarrow> obj \<Rightarrow> response \<times> user_doc list" where
  "login E db req_body =
     (case zod_parse E UserLoginSchema (JObj req_body) of
        Inl issues \<Rightarrow> (login_catch (ZodError issues), db)
      | Inr loginData \<Rightarrow>
          (case findOne_email db (obj_get loginData ''email'') of
             None \<Rightarrow>
               ((reply 401 False ''Invalid email or password'')\<lparr>field := Some ''email''\<rparr>, db)
           | Some u \<Rightarrow>
               if status u = Some ''Suspended'' then
                 (reply 403 False ''Your account has been suspended. Please contact support.'', db)
               else if status u = Some ''Inactive'' then
                 (reply 403 False ''Your account is inactive. Please contact support.'', db)
               else
                 (case comparePassword E u (obj_get loginData ''password'') of
                    Inl e \<Rightarrow> (login_catch e, db)
                  | Inr isMatch \<Rightarrow>
                      if \<not> isMatch then
                        ((reply 401 False ''Invalid email or password'')
                           \<lparr>field := Some ''password''\<rparr>, db)
                      else
                        (let u1 = (if status u = Some ''Pending''
                                   then u\<lparr>status := Some ''Active''\<rparr> else u);
                             u2 = u1\<lparr>updated_at := Some (now E)\<rparr>
                         in case mongoose_save E False [] u2 of
                              Inl errs \<Rightarrow> (login_catch (ValidationError errs), db)
                            | Inr saved \<Rightarrow>
                                ((reply 200 True ''Login successful'')
                                   \<lparr>data := Some \<lparr>user = login_userResponse saved,
                                                   token = generateToken E (doc_id saved)
                                                             (role saved)\<rparr>\<rparr>,
                                 map (\<lambda>d. if doc_id d = doc_id saved then saved else d) db)))))"

text \<open>The two routes: the validators, the \<open>validate\<close> middleware, then the controller.\<close>

definition route_register :: "env \<Rightarrow> user_doc list \<Rightarrow> obj \<Rightarrow> response \<times> user_doc list" where
  "route_register E db req_body =
     (case run_chains E (registerValidator E) req_body of
        (sanitized, errs) \<Rightarrow>
          (case validate errs of
             Some r \<Rightarrow> (r, db)
           | None \<Rightarrow> register E db sanitized))"

definition route_login :: "env \<Rightarrow> user_doc list \<Rightarrow> obj \<Rightarrow> response \<times> user_doc list" where
  "route_login E db req_body =
     (case run_chains E (loginValidator E) req_body of
        (sanitized, errs) \<Rightarrow>
          (case validate errs of
             Some r \<Rightarrow> (r, db)
           | None \<Rightarrow> login E db sanitized))"

section \<open>The address picker\<close>

datatype pstep = step_region | step_province | step_city | step_barangay

record AddressItem =
  item_id :: string
  item_name :: string

record picked_address =
  region :: string
  province :: string
  city :: string
  barangay :: string

text \<open>The two callbacks of the parent, recorded in the order the picker invokes them.\<close>

datatype callback = onSelect picked_address | onClose

record picker =
  step :: pstep
  selectedRegion :: "AddressItem option"
  selectedProvince :: "AddressItem option"
  selectedCity :: "AddressItem option"
  selectedBarangay :: "AddressItem option"
  searchQuery :: string
  regions :: "AddressItem list"
  provinces :: "AddressItem list"
  cities :: "AddressItem list"
  barangays :: "AddressItem list"
  isLoading :: bool
  error :: "string option"
  calls :: "callback list"

definition initial_picker :: picker where
  "initial_picker =
     \<lparr>step = step_region, selectedRegion = None, selectedProvince = None,
      selectedCity = None, selectedBarangay = None, searchQuery = '''',
      regions = [], provinces = [], cities = [], barangays = [],
      isLoading = False, error = None, calls = []\<rparr>"

definition handleRegionSelect :: "AddressItem \<Rightarrow> picker \<Rightarrow> picker" where
  "handleRegionSelect it s =
     s\<lparr>selectedRegion := Some it, selectedProvince := None, selectedCity := None,
       selectedBarangay := None, provinces := [], cities := [], barangays := [],
       searchQuery := '''', step := step_province\<rparr>"

definition handleProvinceSelect :: "AddressItem \<Rightarrow> picker \<Rightarrow> picker" where
  "handleProvinceSelect it s =
     s\<lparr>selectedProvince := Some it, selectedCity := None, selectedBarangay := None,
       cities := [], barangays := [], searchQuery := '''', step := step_city\<rparr>"

definition handleCitySelect :: "AddressItem \<Rightarrow> picker \<Rightarrow> picker" where
  "handleCitySelect it s =
     s\<lparr>selectedCity := Some it, selectedBarangay := None, barangays := [],
       searchQuery := '''', step := step_barangay\<rparr>"

definition handleBarangaySelect :: "AddressItem \<Rightarrow> picker \<Rightarrow> picker" where
  "handleBarangaySelect it s =
     (let s1 = s\<lparr>selectedBarangay := Some it\<rparr>
      in case (selectedRegion s, selectedProvince s, selectedCity s) of
           (Some r, Some p, Some c) \<Rightarrow>
             s1\<lparr>calls := calls s
                   @ [onSelect \<lparr>region = item_name r, province = item_name p,
                                 city = item_name c, barangay = item_name it\<rparr>,
                      onClose]\<rparr>
         | _ \<Rightarrow> s1)"

definition goBack :: "picker \<Rightarrow> picker" where
  "goBack s =
     (let s1 = (if step s = step_barangay then s\<lparr>step := step_city\<rparr>
                else if step s = step_city then s\<lparr>step := step_province\<rparr>
                else if step s = step_province then s\<lparr>step := step_region\<rparr>
                else s)
      in s1\<lparr>searchQuery := ''''\<rparr>)"

definition resetSelection :: "picker \<Rightarrow> picker" where
  "resetSelection s =
     s\<lparr>selectedRegion := None, selectedProvince := None, selectedCity := None,
       selectedBarangay := None, provinces := [], cities := [], barangays := [],
       step := step_region, searchQuery := '''', error := None\<rparr>"

text \<open>The list on screen: the current level's options narrowed by the search text.\<close>

definition str_includes :: "string \<Rightarrow> string \<Rightarrow> bool" where
  "str_includes s q = (\<exists>i \<in> set (upt 0 (Suc (length s))). take (length q) (drop i s) = q)"

definition getFilteredData :: "picker \<Rightarrow> AddressItem list" where
  "getFilteredData s =
     (let data = (case step s of
                    step_region \<Rightarrow> regions s
                  | step_province \<Rightarrow> provinces s
                  | step_city \<Rightarrow> cities s
                  | step_barangay \<Rightarrow> barangays s)
      in if trim (searchQuery s) = '''' then data
         else filter (\<lambda>it. str_includes (toLowerCase (item_name it)) (toLowerCase (searchQuery s)))
                data)"

text \<open>
  What the user and the loaders can do to the picker. A list row dispatches on the
  current step; a breadcrumb below the first is on screen only when its parent level has
  a selection; the loaders report their results whenever they finish.
\<close>

datatype pevent =
    PressItem AddressItem
  | PressBack
  | PressClose
  | PressBreadcrumb pstep
  | PressReset
  | ChangeSearch string
  | LoadStarted
  | LoadFailed string
  | RegionsLoaded "AddressItem list"
  | ProvincesLoaded "AddressItem list"
  | CitiesLoaded "AddressItem list"
  | BarangaysLoaded "AddressItem list"

definition breadcrumb_shown :: "picker \<Rightarrow> pstep \<Rightarrow> bool" where
  "breadcrumb_shown s t =
     (case t of
        step_region \<Rightarrow> True
      | step_province \<Rightarrow> selectedRegion s \<noteq> None
      | step_city \<Rightarrow> selectedProvince s \<noteq> None
      | step_barangay \<Rightarrow> selectedCity s \<noteq> None)"

text \<open>
  When the regions arrive and an initial address was given, the region of that name
  (compared in lower case) becomes the selected region.
\<close>

definition apply_initialAddress :: "picked_address option \<Rightarrow> picker \<Rightarrow> picker" where
  "apply_initialAddress initialAddress s =
     (case initialAddress of
        None \<Rightarrow> s
      | Some a \<Rightarrow>
          if regions s = [] then s
          else (case find (\<lambda>r. toLowerCase (item_name r) = toLowerCase (region a)) (regions s) of
                  None \<Rightarrow> s
                | Some r \<Rightarrow> s\<lparr>selectedRegion := Some r\<rparr>))"

fun picker_event :: "picked_address option \<Rightarrow> picker \<Rightarrow> pevent \<Rightarrow> picker" where
  "picker_event ia s (PressItem it) =
     (case step s of
        step_region \<Rightarrow> handleRegionSelect it s
      | step_province \<Rightarrow> handleProvinceSelect it s
      | step_city \<Rightarrow> handleCitySelect it s
      | step_barangay \<Rightarrow> handleBarangaySelect it s)"
| "picker_event ia s PressBack = (if step s \<noteq> step_region then goBack s else s)"
| "picker_event ia s PressClose = s\<lparr>calls := calls s @ [onClose]\<rparr>"
| "picker_event ia s (PressBreadcrumb t) =
     (if breadcrumb_shown s t then s\<lparr>step := t, searchQuery := ''''\<rparr> else s)"
| "picker_event ia s PressReset = resetSelection s"
| "picker_event ia s (ChangeSearch q) = s\<lparr>searchQuery := q\<rparr>"
| "picker_event ia s LoadStarted = s\<lparr>isLoading := True, error := None\<rparr>"
| "picker_event ia s (LoadFailed msg) = s\<lparr>error := Some msg, isLoading := False\<rparr>"
| "picker_event ia s (RegionsLoaded xs) =
     apply_initialAddress ia (s\<lparr>regions := xs, isLoading := False\<rparr>)"
| "picker_event ia s (ProvincesLoaded xs) = s\<lparr>provinces := xs, isLoading := False\<rparr>"
| "picker_event ia s (CitiesLoaded xs) = s\<lparr>cities := xs, isLoading := False\<rparr>"
| "picker_event ia s (BarangaysLoaded xs) = s\<lparr>barangays := xs, isLoading := False\<rparr>"

fun run_picker :: "picked_address option \<Rightarrow> picker \<Rightarrow> pevent list \<Rightarrow> picker" where
  "run_picker ia s [] = s"
| "run_picker ia s (e # es) = run_picker ia (picker_event ia s e) es"

text \<open>
  The callbacks the specification expects of one event: the address of four names and
  then the close, when a barangay is pressed with the three levels above it selected;
  the close alone for the close button; nothing otherwise.
\<close>

definition expected_callbacks :: "picker \<Rightarrow> pevent \<Rightarrow> callback list" where
  "expected_callbacks s e =
     (case e of
        PressItem it \<Rightarrow>
          (case (step s, selectedRegion s, selectedProvince s, selectedCity s) of
             (step_barangay, Some r, Some p, Some c) \<Rightarrow>
               [onSelect \<lparr>region = item_name r, province = item_name p, city = item_name c,
                          barangay = item_name it\<rparr>, onClose]
           | _ \<Rightarrow> [])
      | PressClose \<Rightarrow> [onClose]
      | _ \<Rightarrow> [])"

text \<open>Every level above the one on screen has a selection.\<close>

definition picker_steps_selected :: "picker \<Rightarrow> bool" where
  "picker_steps_selected s =
     ((selectedCity s \<noteq> None \<longrightarrow> selectedProvince s \<noteq> None)
      \<and> (selectedProvince s \<noteq> None \<longrightarrow> selectedRegion s \<noteq> None)
      \<and> (step s = step_province \<longrightarrow> selectedRegion s \<noteq> None)
      \<and> (step s = step_city \<longrightarrow> selectedProvince s \<noteq> None)
      \<and> (step s = step_barangay \<longrightarrow> selectedCity s \<noteq> None))"

section \<open>The age as the specification words it\<close>

text \<open>
  The whole years between the date of birth and today, less one when today's month and
  day come before the month and day of birth.
\<close>

definition month_day_precedes :: "jsdate \<Rightarrow> jsdate \<Rightarrow> bool" where
  "month_day_precedes a b =
     (getMonth a < getMonth b \<or> (getMonth a = getMonth b \<and> getDate a < getDate b))"

definition spec_age :: "jsdate \<Rightarrow> jsdate \<Rightarrow> int" where
  "spec_age today dob =
     (getFullYear today - getFullYear dob) - (if month_day_precedes today dob then 1 else 0)"

section \<open>Values up to the case of letters\<close>

text \<open>
  Two values that differ at most in the case of letters: two strings with the same
  lower-case form, or the same value.
\<close>

definition same_up_to_case :: "jsval \<Rightarrow> jsval \<Rightarrow> bool" where
  "same_up_to_case x y =
     (case (x, y) of
        (JStr s, JStr t) \<Rightarrow> toLowerCase s = toLowerCase t
      | _ \<Rightarrow> x = y)"

section \<open>Sample data\<close>

text \<open>
  One instance of the platform functions and a few requests and documents, on which the
  definitions above can be run.
\<close>

definition digits_value :: "string \<Rightarrow> int" where
  "digits_value s =
     foldl (\<lambda>acc c. 10 * acc
                     + (case map_of (zip ''0123456789'' [0, 1, 2, 3, 4, 5, 6, 7, 8, 9]) c of
                          Some d \<Rightarrow> d
                        | None \<Rightarrow> 0)) 0 s"

definition ymd :: "int \<Rightarrow> int \<Rightarrow> int \<Rightarrow> jsdate" where
  \<comment> \<open>a calendar day, with months counted from 1 here and from 0 by \<open>getMonth\<close>\<close>
  "ymd y m d =
     \<lparr>getTime = (y * 12 + (m - 1)) * 31 + d, getFullYear = y, getMonth = m - 1, getDate = d\<rparr>"

definition sample_new_Date :: "jsval \<Rightarrow> jsdate option" where
  "sample_new_Date v =
     (case v of
        JStr s \<Rightarrow>
          if matches_ymd s then
            (let y = digits_value (take 4 s);
                 m = digits_value (take 2 (drop 5 s));
                 d = digits_value (drop 8 s)
             in if 1 \<le> m \<and> m \<le> 12 \<and> 1 \<le> d \<and> d \<le> 31 then Some (ymd y m d) else None)
          else None
      | JDate d \<Rightarrow> d
      | _ \<Rightarrow> None)"

definition sample_env :: env where
  "sample_env =
     \<lparr>now = ymd 2024 3 15,
      new_Date = sample_new_Date,
      js_Number = (\<lambda>s. None),
      date_toISOString = (\<lambda>d. ''''),
      date_toString = (\<lambda>d. ''''),
      isEmail = (\<lambda>s. CHR ''@'' \<in> set s),
      normalizeEmail = (\<lambda>s. JStr (toLowerCase s)),
      isISO8601 = matches_ymd,
      zod_email = (\<lambda>s. CHR ''@'' \<in> set s),
      zod_url = (\<lambda>s. startsWith s ''http''),
      bcrypt_hash = (\<lambda>p. ''$2a$10$'' @ p),
      bcrypt_compare = (\<lambda>c h. h = ''$2a$10$'' @ c),
      jwt_sign = (\<lambda>i r. ''jwt:'' @ i),
      new_ObjectId = ''65f3a1b2c3d4e5f601234567'',
      random_user_id = ''PDAO-20240315-K3X9Q''\<rparr>"

text \<open>
  The same platform with a \<open>normalizeEmail\<close> that leaves the case of an address as it
  finds it.
\<close>

definition case_keeping_env :: env where
  "case_keeping_env = sample_env\<lparr>normalizeEmail := JStr\<rparr>"

definition sample_address :: obj where
  "sample_address =
     [(''street'', JStr ''12 Rizal St''), (''barangay'', JStr ''Bonuan Binloc''),
      (''city_municipality'', JStr ''Dagupan City''), (''province'', JStr ''Pangasinan''),
      (''region'', JStr ''Region I''), (''zip_code'', JStr ''2400'')]"

text \<open>A registration that also tries to set its own role, status and verification.\<close>

definition sample_registration :: obj where
  "sample_registration =
     [(''first_name'', JStr ''Maria''), (''last_name'', JStr ''Santos''),
      (''sex'', JStr ''Female''), (''date_of_birth'', JStr ''1990-06-20''),
      (''address'', JObj sample_address), (''contact_number'', JStr ''09171234567''),
      (''email'', JStr ''Maria.Santos@Example.com''), (''password'', JStr ''s3cretpass''),
      (''role'', JStr ''Admin''), (''status'', JStr ''Active''), (''is_verified'', JBool True)]"

text \<open>A document as the collection holds it.\<close>

definition sample_user :: user_doc where
  "sample_user =
     \<lparr>doc_id = ''65f3a1b2c3d4e5f601234567'', user_id = Some ''PDAO-20240315-K3X9Q'',
      form_id = None, first_name = Some ''Maria'', middle_name = Some [],
      last_name = Some ''Santos'', suffix = Some [], sex = Some ''Female'', age = Some 33,
      date_of_birth = Some (ymd 1990 6 20), address_street = Some ''12 Rizal St'',
      address_barangay = Some ''Bonuan Binloc'',
      address_city_municipality = Some ''Dagupan City'',
      address_province = Some ''Pangasinan'', address_region = Some ''Region I'',
      address_zip_code = Some ''2400'', address_country = Some ''Philippines'',
      address_type = Some ''Permanent'', address_coordinates_lat = None,
      address_coordinates_lng = None, contact_number = Some ''09171234567'',
      avatar_url = None, email = Some ''maria.santos@example.com'',
      password = Some ''$2a$10$s3cretpass'', role = Some ''User'', status = Some ''Active'',
      is_verified = Some False, is_email_verified = Some False, created_by = None,
      updated_by = None, created_at = Some (ymd 2024 3 15),
      updated_at = Some (ymd 2024 3 15), version_key = Some 0\<rparr>"

definition sample_login :: obj where
  "sample_login = [(''email'', JStr ''Maria.Santos@Example.com''), (''password'', JStr ''s3cretpass'')]"


definition sample_picks :: "pevent list" where
  "sample_picks =
     [RegionsLoaded [\<lparr>item_id = ''01'', item_name = ''Region I''\<rparr>],
      PressItem \<lparr>item_id = ''01'', item_name = ''Region I''\<rparr>,
      PressItem \<lparr>item_id = ''0155'', item_name = ''Pangasinan''\<rparr>,
      PressItem \<lparr>item_id = ''015518'', item_name = ''Dagupan City''\<rparr>,
      ChangeSearch ''bon'',
      PressItem \<lparr>item_id = ''015518005'', item_name = ''Bonuan Binloc''\<rparr>]"

section \<open>Properties\<close>

lemma filter_digits_phone: "list_all is_digit s \<Longrightarrow> filter is_digit s = s"
  by (induction s) auto

subsection \<open>Objects\<close>

lemma obj_get_set: "obj_get (obj_set k v ob) k' = (if k' = k then Some v else obj_get ob k')"
  by (simp add: obj_get_def obj_set_def update_conv')

subsection \<open>Saving a document\<close>

lemma mongoose_save_Inr:
  "mongoose_save E pm ce u = Inr u' \<Longrightarrow>
     ce = [] \<and> mongoose_validate u = [] \<and> u' = presave_transform E (presave_hash E pm u)"
  by (auto simp: mongoose_save_def Let_def split: if_splits)

lemma presave_hash_fields:
  "date_of_birth (presave_hash E pm u) = date_of_birth u"
  "contact_number (presave_hash E pm u) = contact_number u"
  by (simp_all add: presave_hash_def)

lemma phone_shape:
  assumes "matches_phone cn"
  obtains rest where "cn = CHR ''0'' # CHR ''9'' # rest" "list_all is_digit rest" "length rest = 9"
proof -
  from assms have l: "length cn = 11" and t: "take 2 cn = ''09''"
    and d: "list_all is_digit (drop 2 cn)"
    by (simp_all add: matches_phone_def)
  from l obtain a tl1 where c1: "cn = a # tl1" by (cases cn) auto
  with l obtain b rest where c2: "tl1 = b # rest" by (cases tl1) auto
  from c1 c2 have cn: "cn = a # b # rest" by simp
  with t d l show thesis using that by simp
qed

lemma clean_contact_number_valid:
  assumes "contact_number_validator cn"
  shows "clean_contact_number cn = cn"
proof -
  from assms have m: "matches_phone cn" by (simp add: contact_number_validator_def)
  then obtain rest where cn: "cn = CHR ''0'' # CHR ''9'' # rest" and d: "list_all is_digit rest"
    and l: "length rest = 9" by (rule phone_shape)
  have "list_all is_digit cn" using cn d by (simp add: is_digit_def)
  then have f: "filter is_digit cn = cn" by (rule filter_digits_phone)
  show ?thesis
    unfolding clean_contact_number_def f Let_def
    using cn l by (simp add: startsWith_def)
qed

lemma validate_contact_number_ok:
  "validate_contact_number v = [] \<Longrightarrow>
     \<exists>cn. v = Some cn \<and> cn \<noteq> [] \<and> contact_number_validator cn"
  by (auto simp: validate_contact_number_def required_string_def
           split: list.splits option.splits if_splits)

lemma validated_date_of_birth: "mongoose_validate u = [] \<Longrightarrow> date_of_birth u \<noteq> None"
  by (auto simp: mongoose_validate_def split: if_splits)

lemma validated_contact_number:
  "mongoose_validate u = [] \<Longrightarrow> validate_contact_number (contact_number u) = []"
  by (simp add: mongoose_validate_def)

lemma transform_contact_number_valid:
  assumes "matches_phone cn"
  shows "transform_contact_number cn = cn"
proof -
  from assms obtain rest where cn: "cn = CHR ''0'' # CHR ''9'' # rest"
    and d: "list_all is_digit rest" and l: "length rest = 9" by (rule phone_shape)
  have "list_all is_digit cn" using cn d by (simp add: is_digit_def)
  then have f: "filter is_digit cn = cn" by (rule filter_digits_phone)
  show ?thesis
    unfolding transform_contact_number_def f Let_def
    using cn l by (simp add: startsWith_def)
qed

lemma mongoose_save_contact_number:
  assumes "mongoose_save E pm ce u = Inr u'"
  shows "\<exists>cn. contact_number u = Some cn \<and> contact_number_validator cn
            \<and> contact_number u' = Some (clean_contact_number cn)"
proof -
  from assms have v: "mongoose_validate u = []"
    and u': "u' = presave_transform E (presave_hash E pm u)"
    by (auto dest: mongoose_save_Inr)
  from v obtain cn where cn: "contact_number u = Some cn" "cn \<noteq> []" "contact_number_validator cn"
    using validate_contact_number_ok validated_contact_number by blast
  have "contact_number u' = Some (clean_contact_number cn)"
    using cn by (simp add: u' presave_transform_def presave_hash_fields Let_def split: option.splits)
  with cn show ?thesis by blast
qed

text \<open>
  C3. Whenever a save goes through, the contact number that is stored is the cleaned
  form of the one the document held, it matches \<open>/^09\d{9}$/\<close>, and it has length 11.
  Acceptance is the schema's validator, which runs before the cleaning hook.
\<close>

theorem saved_contact_number_canonical:
  assumes "mongoose_save E pm ce u = Inr u'"
  shows "\<exists>cn. contact_number u = Some cn \<and> contact_number u' = Some (clean_contact_number cn)
            \<and> matches_phone (clean_contact_number cn) \<and> length (clean_contact_number cn) = 11"
proof -
  from assms obtain cn where cn: "contact_number u = Some cn" "contact_number_validator cn"
    and stored: "contact_number u' = Some (clean_contact_number cn)"
    using mongoose_save_contact_number by blast
  have unchanged: "clean_contact_number cn = cn"
    using cn(2) by (rule clean_contact_number_valid)
  have "matches_phone cn" and "length cn = 11"
    using cn(2) by (simp_all add: contact_number_validator_def)
  then have "matches_phone (clean_contact_number cn) \<and> length (clean_contact_number cn) = 11"
    by (simp add: unchanged)
  with cn(1) stored show ?thesis by blast
qed

theorem saved_contact_number_canonical_witness:
  "mongoose_save sample_env True [] (sample_user\<lparr>password := Some ''s3cretpass''\<rparr>)
     = Inr (presave_transform sample_env
              (presave_hash sample_env True (sample_user\<lparr>password := Some ''s3cretpass''\<rparr>)))
   \<and> (\<exists>cn. contact_number (sample_user\<lparr>password := Some ''s3cretpass''\<rparr>) = Some cn
         \<and> contact_number (presave_transform sample_env
              (presave_hash sample_env True (sample_user\<lparr>password := Some ''s3cretpass''\<rparr>)))
            = Some (clean_contact_number cn)
         \<and> matches_phone (clean_contact_number cn) \<and> length (clean_contact_number cn) = 11)"
proof -
  have h: "mongoose_save sample_env True [] (sample_user\<lparr>password := Some ''s3cretpass''\<rparr>)
     = Inr (presave_transform sample_env
              (presave_hash sample_env True (sample_user\<lparr>password := Some ''s3cretpass''\<rparr>)))"
    by code_simp
  have c: "\<exists>cn. contact_number (sample_user\<lparr>password := Some ''s3cretpass''\<rparr>) = Some cn
         \<and> contact_number (presave_transform sample_env
              (presave_hash sample_env True (sample_user\<lparr>password := Some ''s3cretpass''\<rparr>)))
            = Some (clean_contact_number cn)
         \<and> matches_phone (clean_contact_number cn) \<and> length (clean_contact_number cn) = 11"
    by (rule saved_contact_number_canonical[OF h])
  from h c show ?thesis by (rule conjI)
qed

text \<open>What the cleaning does to numbers the validator would not accept.\<close>

lemma clean_contact_number_examples:
  "clean_contact_number ''+63 917 123 4567'' = ''09171234567''"
  "clean_contact_number ''917-123-4567'' = ''09171234567''"
  "clean_contact_number ''12345'' = ''012345''"
  by code_simp+

subsection \<open>The age\<close>

lemma compute_age_spec: "compute_age today dob = spec_age today dob"
  by (auto simp: compute_age_def spec_age_def month_day_precedes_def Let_def)

text \<open>The age counts the birthdays that fall on or before today.\<close>

lemma compute_age_counts_birthdays:
  "n \<le> compute_age today dob \<longleftrightarrow>
     getFullYear dob + n < getFullYear today
     \<or> (getFullYear dob + n = getFullYear today \<and> \<not> month_day_precedes today dob)"
  by (auto simp: compute_age_def month_day_precedes_def Let_def)

lemma age_on_the_birthday: "compute_age (ymd 2024 3 15) (ymd 1990 3 15) = 34"
  by (simp add: compute_age_def ymd_def)

lemma age_on_the_eve_of_the_birthday: "compute_age (ymd 2024 3 15) (ymd 1990 3 16) = 33"
  by (simp add: compute_age_def ymd_def)

lemma age_of_a_leap_day_birth:
  "compute_age (ymd 2023 2 28) (ymd 2000 2 29) = 22"
  "compute_age (ymd 2023 3 1) (ymd 2000 2 29) = 23"
  "compute_age (ymd 2024 2 29) (ymd 2000 2 29) = 24"
  by (simp_all add: compute_age_def ymd_def)

lemma mongoose_save_age:
  assumes "mongoose_save E pm ce u = Inr u'"
  shows "\<exists>d. date_of_birth u = Some d \<and> date_of_birth u' = Some d
            \<and> age u' = Some (compute_age (now E) d)"
proof -
  from assms have v: "mongoose_validate u = []"
    and u': "u' = presave_transform E (presave_hash E pm u)"
    by (auto dest: mongoose_save_Inr)
  from v obtain d where d: "date_of_birth u = Some d" using validated_date_of_birth by blast
  then show ?thesis
    by (simp add: u' presave_transform_def presave_hash_fields Let_def split: option.splits)
qed

text \<open>
  C4. Whenever a save goes through, the age that is stored is the age the specification
  words, computed from the stored date of birth and the time of the save, whatever age
  the document held before.
\<close>

theorem saved_age_recomputed:
  assumes "mongoose_save E pm ce u = Inr u'"
  shows "\<exists>d. date_of_birth u = Some d \<and> date_of_birth u' = Some d
            \<and> age u' = Some (spec_age (now E) d)"
proof -
  from assms obtain d where d: "date_of_birth u = Some d" "date_of_birth u' = Some d"
    and hook: "age u' = Some (compute_age (now E) d)"
    using mongoose_save_age by blast
  have "compute_age (now E) d = spec_age (now E) d" by (rule compute_age_spec)
  with d hook show ?thesis by simp
qed

theorem saved_age_recomputed_witness:
  "mongoose_save sample_env False [] (sample_user\<lparr>age := Some 21\<rparr>)
     = Inr (sample_user\<lparr>age := Some 33\<rparr>)
   \<and> (\<exists>d. date_of_birth (sample_user\<lparr>age := Some 21\<rparr>) = Some d
         \<and> date_of_birth (sample_user\<lparr>age := Some 33\<rparr>) = Some d
         \<and> age (sample_user\<lparr>age := Some 33\<rparr>) = Some (spec_age (now sample_env) d))"
proof -
  have h: "mongoose_save sample_env False [] (sample_user\<lparr>age := Some 21\<rparr>)
             = Inr (sample_user\<lparr>age := Some 33\<rparr>)"
    by code_simp
  have c: "\<exists>d. date_of_birth (sample_user\<lparr>age := Some 21\<rparr>) = Some d
         \<and> date_of_birth (sample_user\<lparr>age := Some 33\<rparr>) = Some d
         \<and> age (sample_user\<lparr>age := Some 33\<rparr>) = Some (spec_age (now sample_env) d)"
    by (rule saved_age_recomputed[OF h])
  from h c show ?thesis by (rule conjI)
qed

subsection \<open>Registration\<close>

lemma forced_fields_get:
  "obj_get (forced_fields md) ''form_id'' = Some JNull"
  "obj_get (forced_fields md) ''is_verified'' = Some (JBool False)"
  "obj_get (forced_fields md) ''is_email_verified'' = Some (JBool False)"
  "obj_get (forced_fields md) ''status'' = Some (JStr ''Pending'')"
  "obj_get (forced_fields md) ''role'' = Some (JStr ''User'')"
  by (simp_all add: forced_fields_def obj_get_set)

lemma mongoose_new_account_fields:
  "form_id (snd (mongoose_new E ob))
     = snd (castString E ''form_id'' None (obj_get ob ''form_id''))"
  "status (snd (mongoose_new E ob))
     = snd (castString E ''status'' (Some ''Pending'') (obj_get ob ''status''))"
  "role (snd (mongoose_new E ob))
     = snd (castString E ''role'' (Some ''User'') (obj_get ob ''role''))"
  "is_verified (snd (mongoose_new E ob))
     = snd (castBoolean ''is_verified'' (Some False) (obj_get ob ''is_verified''))"
  "is_email_verified (snd (mongoose_new E ob))
     = snd (castBoolean ''is_email_verified'' (Some False) (obj_get ob ''is_email_verified''))"
  by (simp_all add: mongoose_new_def Let_def)

lemma presave_account_fields:
  "form_id (presave_transform E (presave_hash E pm u)) = form_id u"
  "status (presave_transform E (presave_hash E pm u)) = status u"
  "role (presave_transform E (presave_hash E pm u)) = role u"
  "is_verified (presave_transform E (presave_hash E pm u)) = is_verified u"
  "is_email_verified (presave_transform E (presave_hash E pm u)) = is_email_verified u"
  by (simp_all add: presave_transform_def presave_hash_def Let_def split: option.splits)

lemma mongoose_create_account_fields:
  assumes "mongoose_create E db (forced_fields md) = Inr u"
  shows "form_id u = None \<and> status u = Some ''Pending'' \<and> role u = Some ''User''
         \<and> is_verified u = Some False \<and> is_email_verified u = Some False"
proof -
  obtain ce d where n: "mongoose_new E (forced_fields md) = (ce, d)"
    by (cases "mongoose_new E (forced_fields md)")
  from assms n obtain saved where s: "mongoose_save E True ce d = Inr saved"
    and u: "u = saved\<lparr>created_at := Some (now E), updated_at := Some (now E),
                      version_key := Some 0\<rparr>"
    by (auto simp: mongoose_create_def Let_def split: sum.splits option.splits)
  from s have sv: "saved = presave_transform E (presave_hash E True d)"
    by (auto dest: mongoose_save_Inr)
  have d: "d = snd (mongoose_new E (forced_fields md))" using n by simp
  show ?thesis
    unfolding u sv
    by (simp add: presave_account_fields d mongoose_new_account_fields forced_fields_get)
qed

lemma register_outcome:
  "snd (register E db b) = db \<and> status_code (fst (register E db b)) \<noteq> 201
   \<or> (\<exists>md u. mongoose_create E db (forced_fields md) = Inr u
         \<and> snd (register E db b) = db @ [u]
         \<and> status_code (fst (register E db b)) = 201)"
  by (auto simp: register_def register_catch_def reply_def split: sum.splits thrown.splits)

lemma validate_status: "validate errs = Some r \<Longrightarrow> status_code r = 400"
  by (auto simp: validate_def reply_def split: if_splits)

lemma route_register_outcome:
  "snd (route_register E db b) = db \<and> status_code (fst (route_register E db b)) \<noteq> 201
   \<or> (\<exists>md u. mongoose_create E db (forced_fields md) = Inr u
         \<and> snd (route_register E db b) = db @ [u]
         \<and> status_code (fst (route_register E db b)) = 201)"
proof -
  obtain sb errs where rc: "run_chains E (registerValidator E) b = (sb, errs)"
    by (cases "run_chains E (registerValidator E) b")
  show ?thesis
  proof (cases "validate errs")
    case None
    then have "route_register E db b = register E db sb" by (simp add: route_register_def rc)
    then show ?thesis using register_outcome[of E db sb] by simp
  next
    case (Some r)
    then have "route_register E db b = (r, db)" by (simp add: route_register_def rc)
    then show ?thesis using validate_status[OF Some] by simp
  qed
qed

text \<open>
  C1. A registration answers 201 exactly when it stores a document, it stores at most
  one, and the stored document has no form id, status Pending, role User and both
  verification flags false, whatever the request carried.
\<close>

theorem registration_forces_account_fields:
  assumes "route_register E db req = (r, db')"
  shows "(status_code r = 201 \<longleftrightarrow> db' \<noteq> db) \<and>
         (db' = db \<or> (\<exists>u. db' = db @ [u] \<and> form_id u = None \<and> status u = Some ''Pending''
            \<and> role u = Some ''User'' \<and> is_verified u = Some False
            \<and> is_email_verified u = Some False))"
  using route_register_outcome[of E db req] assms
  by (auto dest: mongoose_create_account_fields)

theorem registration_forces_account_fields_witness:
  "\<exists>u. snd (route_register sample_env [] sample_registration) = [u] \<and> form_id u = None
       \<and> status u = Some ''Pending'' \<and> role u = Some ''User'' \<and> is_verified u = Some False
       \<and> is_email_verified u = Some False"
proof -
  have c: "status_code (fst (route_register sample_env [] sample_registration)) = 201"
    by code_simp
  have "route_register sample_env [] sample_registration
          = (fst (route_register sample_env [] sample_registration),
             snd (route_register sample_env [] sample_registration))" by simp
  from registration_forces_account_fields[OF this] c show ?thesis by auto
qed

text \<open>
  What the register route stores went through one save, so its contact number and its
  age are as above.
\<close>

lemma mongoose_create_saved:
  assumes "mongoose_create E db ob = Inr u"
  shows "\<exists>ce d saved. mongoose_save E True ce d = Inr saved
           \<and> contact_number u = contact_number saved \<and> age u = age saved
           \<and> date_of_birth u = date_of_birth saved"
proof -
  obtain ce d where n: "mongoose_new E ob = (ce, d)" by (cases "mongoose_new E ob")
  from assms n obtain saved where s: "mongoose_save E True ce d = Inr saved"
    and u: "u = saved\<lparr>created_at := Some (now E), updated_at := Some (now E),
                      version_key := Some 0\<rparr>"
    by (auto simp: mongoose_create_def Let_def split: sum.splits option.splits)
  from u have "contact_number u = contact_number saved \<and> age u = age saved
               \<and> date_of_birth u = date_of_birth saved" by simp
  with s show ?thesis by blast
qed

lemma registered_document_canonical:
  assumes "route_register E db req = (r, db @ [u])"
  shows "(\<exists>cn. contact_number u = Some cn \<and> matches_phone cn \<and> length cn = 11)
         \<and> (\<exists>d. date_of_birth u = Some d \<and> age u = Some (spec_age (now E) d))"
proof -
  from route_register_outcome[of E db req] assms
  obtain md where "mongoose_create E db (forced_fields md) = Inr u" by auto
  then obtain ce d saved where s: "mongoose_save E True ce d = Inr saved"
    and f: "contact_number u = contact_number saved" "age u = age saved"
      "date_of_birth u = date_of_birth saved"
    using mongoose_create_saved by blast
  from mongoose_save_contact_number[OF s] obtain cn where
    "contact_number_validator cn" "contact_number saved = Some (clean_contact_number cn)"
    by blast
  then have 1: "\<exists>cn. contact_number u = Some cn \<and> matches_phone cn \<and> length cn = 11"
    using f(1) clean_contact_number_valid[of cn] by (simp add: contact_number_validator_def)
  from mongoose_save_age[OF s] f
  have 2: "\<exists>d. date_of_birth u = Some d \<and> age u = Some (spec_age (now E) d)"
    by (auto simp: compute_age_spec)
  from 1 2 show ?thesis by (rule conjI)
qed

lemma route_register_hands_over:
  "run_chains E (registerValidator E) req = (sanitized, []) \<Longrightarrow>
     route_register E db req = register E db sanitized"
  by (simp add: route_register_def validate_def)

subsection \<open>Validation chains\<close>

lemma split_dots_nonempty: "split_dots s \<noteq> []"
  by (induction s) (auto split: list.splits)

lemma get_path_first_key:
  "obj_get b1 k = obj_get b2 k \<Longrightarrow> get_path b1 (k # ks) = get_path b2 (k # ks)"
  by (cases ks) simp_all

lemma set_path_other_key:
  "k' \<noteq> k \<Longrightarrow> obj_get (set_path (k # ks) x b) k' = obj_get b k'"
  by (cases ks) (simp_all add: obj_get_set split: option.splits jsval.splits)

lemma set_path_first_key:
  "obj_get b1 k = obj_get b2 k \<Longrightarrow>
     obj_get (set_path (k # ks) x b1) k = obj_get (set_path (k # ks) x b2) k"
  by (cases ks) (simp_all add: obj_get_set split: option.splits jsval.splits)


lemma split_dots_first_key: "split_dots (fst c) = first_key c # tl (split_dots (fst c))"
  by (simp add: first_key_def split_dots_nonempty)

lemma run_chain_other_key:
  assumes "k' \<noteq> first_key c"
  shows "obj_get (fst (run_chain E c (b, es))) k' = obj_get b k'"
proof -
  obtain fld items where c: "c = (fld, items)" by (cases c)
  obtain ks where p: "split_dots fld = first_key c # ks"
    using split_dots_first_key[of c] c by simp
  show ?thesis
    using assms by (simp add: run_chain_def c p Let_def set_path_other_key split: option.splits)
qed

lemma run_chain_errors:
  "snd (run_chain E c (b, es)) = es @ snd (run_chain E c (b, []))"
  by (cases c) (simp add: run_chain_def Let_def)

lemma run_chain_first_key:
  assumes "obj_get b1 (first_key c) = obj_get b2 (first_key c)"
  shows "snd (run_chain E c (b1, es)) = snd (run_chain E c (b2, es))
         \<and> obj_get (fst (run_chain E c (b1, es))) (first_key c)
           = obj_get (fst (run_chain E c (b2, es))) (first_key c)"
proof -
  obtain fld items where c: "c = (fld, items)" by (cases c)
  define k where "k = first_key c"
  obtain ks where p: "split_dots fld = k # ks"
    using split_dots_first_key[of c] c k_def by simp
  have a: "obj_get b1 k = obj_get b2 k" using assms k_def by simp
  have g: "get_path b1 (k # ks) = get_path b2 (k # ks)"
    using a by (rule get_path_first_key)
  have s: "obj_get (set_path (k # ks) x b1) k = obj_get (set_path (k # ks) x b2) k" for x
    using a by (rule set_path_first_key)
  show ?thesis
    unfolding k_def[symmetric]
    by (simp add: run_chain_def c p g Let_def a s split: option.splits)
qed

lemma fold_run_chain_other_key:
  "\<forall>c \<in> set cs. first_key c \<noteq> k \<Longrightarrow>
     obj_get (fst (fold (run_chain E) cs (b, es))) k = obj_get b k"
proof (induction cs arbitrary: b es)
  case Nil
  then show ?case by simp
next
  case (Cons c cs)
  obtain b' es' where r: "run_chain E c (b, es) = (b', es')" by (cases "run_chain E c (b, es)")
  have "obj_get b' k = obj_get b k"
    using run_chain_other_key[of k c E b es] Cons.prems r by auto
  then show ?case using Cons r by simp
qed

lemma fold_run_chain_errors_grow:
  "\<exists>more. snd (fold (run_chain E) cs (b, es)) = es @ more"
proof (induction cs arbitrary: b es)
  case Nil
  then show ?case by simp
next
  case (Cons c cs)
  obtain b' es' where r: "run_chain E c (b, es) = (b', es')" by (cases "run_chain E c (b, es)")
  then have "es' = es @ snd (run_chain E c (b, []))" using run_chain_errors[of E c b es] by simp
  moreover obtain more where "snd (fold (run_chain E) cs (b', es')) = es' @ more"
    using Cons.IH by blast
  ultimately show ?case using r by simp
qed

subsection \<open>The form id at registration\<close>

lemma registerValidator_split:
  "registerValidator E = butlast (registerValidator E)
     @ [body ''form_id'' [Optional,
          CustomValidator (\<lambda>v. Some ''form_id cannot be set during registration'')]]"
  by (simp add: registerValidator_def)

lemma registerValidator_front_keys:
  "\<forall>c \<in> set (butlast (registerValidator E)). first_key c \<noteq> ''form_id''"
  by (simp add: registerValidator_def first_key_def body_def)

lemma form_id_chain_rejects:
  assumes "obj_get b ''form_id'' = Some x"
  shows "snd (run_chain E (body ''form_id'' [Optional,
            CustomValidator (\<lambda>v. Some ''form_id cannot be set during registration'')]) (b, es))
         = es @ [(''form_id'', ''form_id cannot be set during registration'')]"
  using assms by (simp add: run_chain_def body_def Let_def)

lemma validate_form_id:
  "validate (es @ [(''form_id'', m)]) = Some form_id_rejected"
  by (simp add: validate_def form_id_rejected_def reply_def)

text \<open>
  C2. A registration whose body has a \<open>form_id\<close> key, whatever the value under it
  (\<open>null\<close> included), is answered 400 with the one error for field \<open>form_id\<close>, and
  the collection is left as it was.
\<close>

theorem registration_rejects_form_id:
  assumes "obj_get req ''form_id'' \<noteq> None"
  shows "route_register E db req = (form_id_rejected, db)"
proof -
  let ?front = "butlast (registerValidator E)"
  let ?last = "body ''form_id'' [Optional,
          CustomValidator (\<lambda>v. Some ''form_id cannot be set during registration'')]"
  obtain b es where f: "fold (run_chain E) ?front (req, []) = (b, es)"
    by (cases "fold (run_chain E) ?front (req, [])")
  from assms obtain x where x: "obj_get req ''form_id'' = Some x" by auto
  have "obj_get (fst (fold (run_chain E) ?front (req, []))) ''form_id'' = obj_get req ''form_id''"
    by (rule fold_run_chain_other_key) (rule registerValidator_front_keys)
  then have "obj_get b ''form_id'' = Some x"
    using f x by simp
  then have e: "snd (run_chain E ?last (b, es))
                  = es @ [(''form_id'', ''form_id cannot be set during registration'')]"
    by (rule form_id_chain_rejects)
  have "run_chains E (registerValidator E) req = run_chain E ?last (b, es)"
    unfolding run_chains_def by (subst registerValidator_split) (simp add: f)
  then obtain b' where "run_chains E (registerValidator E) req
      = (b', es @ [(''form_id'', ''form_id cannot be set during registration'')])"
    using e by (cases "run_chain E ?last (b, es)") simp
  then show ?thesis by (simp add: route_register_def validate_form_id)
qed

theorem registration_rejects_form_id_witness:
  "obj_get (obj_set ''form_id'' JNull sample_registration) ''form_id'' \<noteq> None
   \<and> route_register sample_env [] (obj_set ''form_id'' JNull sample_registration)
       = (form_id_rejected, [])"
proof -
  have h: "obj_get (obj_set ''form_id'' JNull sample_registration) ''form_id'' \<noteq> None"
    by (simp add: obj_get_set)
  from registration_rejects_form_id[OF h] h show ?thesis by (rule conjI[rotated])
qed

subsection \<open>Logging in\<close>

lemma route_login_hands_over:
  "run_chains E (loginValidator E) req = (sanitized, []) \<Longrightarrow>
     route_login E db req = login E db sanitized"
  by (simp add: route_login_def validate_def)

text \<open>
  C5. A login whose input parses and whose e-mail finds an account that is Suspended or
  Inactive is answered 403 with the message of that status, carries no user and no
  token, and leaves the collection as it was. The answer is fixed before the password is
  compared, so it is the same for a right and for a wrong password.
\<close>

theorem login_blocked_account:
  assumes "zod_parse E UserLoginSchema (JObj req) = Inr loginData"
    and "findOne_email db (obj_get loginData ''email'') = Some u"
    and "status u = Some ''Suspended'' \<or> status u = Some ''Inactive''"
  shows "login E db req
           = (reply 403 False
                (if status u = Some ''Suspended''
                 then ''Your account has been suspended. Please contact support.''
                 else ''Your account is inactive. Please contact support.''), db)
         \<and> status_code (fst (login E db req)) = 403
         \<and> data (fst (login E db req)) = None"
  using assms by (auto simp: login_def reply_def)

theorem login_blocked_account_witness:
  "zod_parse sample_env UserLoginSchema (JObj sample_login) = Inr sample_login
   \<and> findOne_email [sample_user\<lparr>status := Some ''Suspended''\<rparr>] (obj_get sample_login ''email'')
       = Some (sample_user\<lparr>status := Some ''Suspended''\<rparr>)
   \<and> comparePassword sample_env (sample_user\<lparr>status := Some ''Suspended''\<rparr>)
        (obj_get sample_login ''password'') = Inr True
   \<and> login sample_env [sample_user\<lparr>status := Some ''Suspended''\<rparr>] sample_login
       = (reply 403 False ''Your account has been suspended. Please contact support.'',
          [sample_user\<lparr>status := Some ''Suspended''\<rparr>])"
proof -
  have p: "zod_parse sample_env UserLoginSchema (JObj sample_login) = Inr sample_login"
    by code_simp
  have f: "findOne_email [sample_user\<lparr>status := Some ''Suspended''\<rparr>]
             (obj_get sample_login ''email'') = Some (sample_user\<lparr>status := Some ''Suspended''\<rparr>)"
    by code_simp
  have s: "status (sample_user\<lparr>status := Some ''Suspended''\<rparr>) = Some ''Suspended''
           \<or> status (sample_user\<lparr>status := Some ''Suspended''\<rparr>) = Some ''Inactive''"
    by simp
  have c: "comparePassword sample_env (sample_user\<lparr>status := Some ''Suspended''\<rparr>)
        (obj_get sample_login ''password'') = Inr True"
    by code_simp
  from login_blocked_account[OF p f s] p f c show ?thesis by simp
qed

lemma route_login_inactive_example:
  "route_login sample_env [sample_user\<lparr>status := Some ''Inactive''\<rparr>] sample_login
     = (reply 403 False ''Your account is inactive. Please contact support.'',
        [sample_user\<lparr>status := Some ''Inactive''\<rparr>])"
  by code_simp

text \<open>
  C6 as stated fails: a known e-mail with a wrong password is answered 403, with a
  message that tells the account exists, when the account is suspended.
\<close>

theorem login_known_email_suspended_counterexample:
  "findOne_email [sample_user\<lparr>status := Some ''Suspended''\<rparr>]
       (Some (JStr ''maria.santos@example.com''))
     = Some (sample_user\<lparr>status := Some ''Suspended''\<rparr>)
   \<and> comparePassword sample_env (sample_user\<lparr>status := Some ''Suspended''\<rparr>)
        (Some (JStr ''not-the-password'')) = Inr False
   \<and> route_login sample_env [sample_user\<lparr>status := Some ''Suspended''\<rparr>]
        [(''email'', JStr ''maria.santos@example.com''),
         (''password'', JStr ''not-the-password'')]
     = (reply 403 False ''Your account has been suspended. Please contact support.'',
        [sample_user\<lparr>status := Some ''Suspended''\<rparr>])"
  by code_simp

text \<open>
  C6, amended. Of two logins whose input parses, one whose e-mail finds no account and
  one whose e-mail finds an account that is neither Suspended nor Inactive but whose
  password does not match, both are answered 401 with the message
  \<open>Invalid email or password\<close>, and the two answers differ in the field alone.
\<close>

theorem login_failures_share_message:
  assumes "zod_parse E UserLoginSchema (JObj req1) = Inr data1"
    and "findOne_email db (obj_get data1 ''email'') = None"
    and "zod_parse E UserLoginSchema (JObj req2) = Inr data2"
    and "findOne_email db (obj_get data2 ''email'') = Some u"
    and "status u \<noteq> Some ''Suspended''" and "status u \<noteq> Some ''Inactive''"
    and "comparePassword E u (obj_get data2 ''password'') = Inr False"
  shows "login E db req1
           = ((reply 401 False ''Invalid email or password'')\<lparr>field := Some ''email''\<rparr>, db)
         \<and> login E db req2
           = ((reply 401 False ''Invalid email or password'')\<lparr>field := Some ''password''\<rparr>, db)
         \<and> fst (login E db req2) = (fst (login E db req1))\<lparr>field := Some ''password''\<rparr>"
  using assms by (simp add: login_def reply_def)

theorem login_failures_share_message_witness:
  "login sample_env [sample_user] [(''email'', JStr ''nobody@example.com''),
                                   (''password'', JStr ''s3cretpass'')]
     = ((reply 401 False ''Invalid email or password'')\<lparr>field := Some ''email''\<rparr>, [sample_user])
   \<and> login sample_env [sample_user] [(''email'', JStr ''maria.santos@example.com''),
                                     (''password'', JStr ''not-the-password'')]
     = ((reply 401 False ''Invalid email or password'')\<lparr>field := Some ''password''\<rparr>,
        [sample_user])"
proof -
  let ?r1 = "[(''email'', JStr ''nobody@example.com''), (''password'', JStr ''s3cretpass'')]"
  let ?r2 = "[(''email'', JStr ''maria.santos@example.com''),
              (''password'', JStr ''not-the-password'')]"
  have p1: "zod_parse sample_env UserLoginSchema (JObj ?r1) = Inr ?r1" by code_simp
  have f1: "findOne_email [sample_user] (obj_get ?r1 ''email'') = None" by code_simp
  have p2: "zod_parse sample_env UserLoginSchema (JObj ?r2) = Inr ?r2" by code_simp
  have f2: "findOne_email [sample_user] (obj_get ?r2 ''email'') = Some sample_user" by code_simp
  have s1: "status sample_user \<noteq> Some ''Suspended''" by code_simp
  have s2: "status sample_user \<noteq> Some ''Inactive''" by code_simp
  have c: "comparePassword sample_env sample_user (obj_get ?r2 ''password'') = Inr False"
    by code_simp
  from login_failures_share_message[OF p1 f1 p2 f2 s1 s2 c] show ?thesis by simp
qed

subsection \<open>The password in what is returned\<close>

lemma obj_keys_set: "obj_keys (obj_set k v ob) = insert k (obj_keys ob)"
  by (simp add: obj_keys_def obj_set_def dom_update)

lemma obj_keys_delete: "obj_keys (obj_delete k ob) = obj_keys ob - {k}"
  by (auto simp: obj_keys_def obj_delete_def AList.delete_eq)

lemma userResponse_keys:
  "''password'' \<notin> obj_keys (register_userResponse u)"
  "''password'' \<notin> obj_keys (login_userResponse u)"
  by (simp_all add: obj_keys_def register_userResponse_def login_userResponse_def)

lemma register_data:
  "data (fst (register E db b)) = Some p \<Longrightarrow> \<exists>u. user p = register_userResponse u"
  by (auto simp: register_def register_catch_def reply_def split: sum.splits thrown.splits if_splits)

lemma login_data:
  "data (fst (login E db b)) = Some p \<Longrightarrow> \<exists>u. user p = login_userResponse u"
  by (auto simp: login_def login_catch_def reply_def Let_def
           split: sum.splits thrown.splits if_splits option.splits)

lemma validate_data: "validate errs = Some r \<Longrightarrow> data r = None"
  by (auto simp: validate_def reply_def split: if_splits)

lemma route_register_data:
  "data (fst (route_register E db b)) = Some p \<Longrightarrow> \<exists>u. user p = register_userResponse u"
  by (auto simp: route_register_def split: prod.splits option.splits
           dest: validate_data register_data)

lemma route_login_data:
  "data (fst (route_login E db b)) = Some p \<Longrightarrow> \<exists>u. user p = login_userResponse u"
  by (auto simp: route_login_def split: prod.splits option.splits
           dest: validate_data login_data)

lemma zparse_shape_keys:
  "kv \<in> set (snd (snd (zparse_shape E sh path ob))) \<Longrightarrow> fst kv \<in> fst ` set sh"
  by (induction sh) (force split: prod.splits option.splits)+

lemma UserPublicSchema_keys: "''password'' \<notin> fst ` set (UserPublicSchema E)"
  by (simp add: UserPublicSchema_def UserSchema_def omit_def extend_shape_def)

lemma zod_parse_keys:
  assumes "zod_parse E sh v = Inr out"
  shows "obj_keys out \<subseteq> fst ` set sh"
proof -
  from assms obtain ob ab where "zparse_shape E sh [] ob = (ab, [], out)"
    by (auto simp: zod_parse_def split: jsval.splits prod.splits if_splits)
  then have "fst kv \<in> fst ` set sh" if "kv \<in> set out" for kv
    using zparse_shape_keys[of kv E sh "[]" ob] that by simp
  then show ?thesis by (auto simp: obj_keys_def)
qed

lemma sanitizeUserForPublic_keys:
  assumes "sanitizeUserForPublic E x = Inr r"
  shows "''password'' \<notin> obj_keys r"
proof -
  from assms obtain pu where pu: "zod_parse E (UserPublicSchema E) (JObj x) = Inr pu"
    by (auto simp: sanitizeUserForPublic_def split: sum.splits)
  then have "''password'' \<notin> obj_keys pu"
    using zod_parse_keys UserPublicSchema_keys by blast
  then show ?thesis
    using assms pu
    by (auto simp: sanitizeUserForPublic_def Let_def obj_keys_set split: option.splits)
qed

text \<open>
  C7. The user object of any answer of the register and login routes, and of the two
  controllers on any body, has no \<open>password\<close> key, and neither has the output of \<open>toJSON\<close>, \<open>sanitizeUser\<close>,
  \<open>toPlain\<close> or \<open>sanitizeUserForPublic\<close>.
\<close>

theorem no_password_in_returned_user:
  "(\<forall>p. data (fst (route_register E db req)) = Some p \<longrightarrow> ''password'' \<notin> obj_keys (user p))
   \<and> (\<forall>p. data (fst (route_login E db req)) = Some p \<longrightarrow> ''password'' \<notin> obj_keys (user p))
   \<and> (\<forall>p. data (fst (register E db req)) = Some p \<longrightarrow> ''password'' \<notin> obj_keys (user p))
   \<and> (\<forall>p. data (fst (login E db req)) = Some p \<longrightarrow> ''password'' \<notin> obj_keys (user p))
   \<and> ''password'' \<notin> obj_keys (toJSON u)
   \<and> ''password'' \<notin> obj_keys (sanitizeUser d)
   \<and> ''password'' \<notin> obj_keys (toPlain d)
   \<and> (\<forall>r. sanitizeUserForPublic E x = Inr r \<longrightarrow> ''password'' \<notin> obj_keys r)"
proof (intro conjI allI impI)
  fix p assume "data (fst (route_register E db req)) = Some p"
  then show "''password'' \<notin> obj_keys (user p)"
    using route_register_data userResponse_keys(1) by fastforce
next
  fix p assume "data (fst (route_login E db req)) = Some p"
  then show "''password'' \<notin> obj_keys (user p)"
    using route_login_data userResponse_keys(2) by fastforce
next
  fix p assume "data (fst (register E db req)) = Some p"
  then show "''password'' \<notin> obj_keys (user p)"
    using register_data userResponse_keys(1) by fastforce
next
  fix p assume "data (fst (login E db req)) = Some p"
  then show "''password'' \<notin> obj_keys (user p)"
    using login_data userResponse_keys(2) by fastforce
next
  show "''password'' \<notin> obj_keys (toJSON u)"
    by (simp add: toJSON_def obj_keys_delete)
next
  show "''password'' \<notin> obj_keys (sanitizeUser d)"
    by (auto simp: sanitizeUser_def obj_keys_def Let_def)
next
  show "''password'' \<notin> obj_keys (toPlain d)"
    by (simp add: toPlain_def obj_keys_delete Let_def)
next
  fix r assume "sanitizeUserForPublic E x = Inr r"
  then show "''password'' \<notin> obj_keys r" by (rule sanitizeUserForPublic_keys)
qed

theorem no_password_in_returned_user_witness:
  "(\<exists>p. data (fst (route_register sample_env [] sample_registration)) = Some p
        \<and> ''password'' \<notin> obj_keys (user p))
   \<and> (\<exists>p. data (fst (route_login sample_env [sample_user] sample_login)) = Some p
        \<and> ''password'' \<notin> obj_keys (user p))
   \<and> (\<exists>r. sanitizeUserForPublic sample_env sample_registration = Inr r
        \<and> ''password'' \<notin> obj_keys r)
   \<and> ''password'' \<in> obj_keys (toObject sample_user)
   \<and> ''password'' \<in> obj_keys sample_registration"
proof -
  have a: "data (fst (route_register sample_env [] sample_registration)) \<noteq> None"
    by code_simp
  have b: "data (fst (route_login sample_env [sample_user] sample_login)) \<noteq> None"
    by code_simp
  have c: "\<not> isl (sanitizeUserForPublic sample_env sample_registration)"
    by code_simp
  then obtain r where r: "sanitizeUserForPublic sample_env sample_registration = Inr r"
    by (cases "sanitizeUserForPublic sample_env sample_registration") auto
  have d: "''password'' \<in> obj_keys (toObject sample_user)"
    by (simp add: obj_keys_def toObject_def)
  have e: "''password'' \<in> obj_keys sample_registration"
    by (simp add: obj_keys_def sample_registration_def)
  from no_password_in_returned_user[of sample_env "[]" sample_registration sample_user
         "Inl sample_user" sample_registration]
       no_password_in_returned_user[of sample_env "[sample_user]" sample_login sample_user
         "Inl sample_user" sample_registration]
       a b r d e
  show ?thesis by auto
qed

subsection \<open>The address picker\<close>

text \<open>
  C9 as stated fails at the last level: pressing a barangay leaves the search text as it
  was.
\<close>

theorem barangay_select_keeps_search_counterexample:
  "searchQuery (picker_event None
      (initial_picker\<lparr>step := step_barangay, searchQuery := ''bon'',
         selectedRegion := Some \<lparr>item_id = ''01'', item_name = ''Region I''\<rparr>,
         selectedProvince := Some \<lparr>item_id = ''0155'', item_name = ''Pangasinan''\<rparr>,
         selectedCity := Some \<lparr>item_id = ''015518'', item_name = ''Dagupan City''\<rparr>\<rparr>)
      (PressItem \<lparr>item_id = ''015518005'', item_name = ''Bonuan Binloc''\<rparr>)) = ''bon''"
  by (simp add: handleBarangaySelect_def initial_picker_def)

lemma calls_picker_event: "calls (picker_event ia s e) = calls s @ expected_callbacks s e"
  by (cases e)
     (auto simp: expected_callbacks_def handleRegionSelect_def handleProvinceSelect_def
        handleCitySelect_def handleBarangaySelect_def goBack_def resetSelection_def
        apply_initialAddress_def Let_def
      split: pstep.splits option.splits)

text \<open>
  C9, amended. Selecting a region, a province or a city clears every selection and every
  option list below it and empties the search text; selecting a barangay keeps the
  search text; and over all events the address of four names is handed to the parent
  only when a barangay is pressed with region, province and city selected, followed at
  once by the close.
\<close>

theorem picker_selection:
  "(let s' = handleRegionSelect it s in
      selectedRegion s' = Some it \<and> selectedProvince s' = None \<and> selectedCity s' = None
      \<and> selectedBarangay s' = None \<and> provinces s' = [] \<and> cities s' = [] \<and> barangays s' = []
      \<and> searchQuery s' = '''' \<and> step s' = step_province \<and> calls s' = calls s)
   \<and> (let s' = handleProvinceSelect it s in
      selectedRegion s' = selectedRegion s \<and> selectedProvince s' = Some it
      \<and> selectedCity s' = None \<and> selectedBarangay s' = None \<and> cities s' = []
      \<and> barangays s' = [] \<and> searchQuery s' = '''' \<and> step s' = step_city \<and> calls s' = calls s)
   \<and> (let s' = handleCitySelect it s in
      selectedRegion s' = selectedRegion s \<and> selectedProvince s' = selectedProvince s
      \<and> selectedCity s' = Some it \<and> selectedBarangay s' = None \<and> barangays s' = []
      \<and> searchQuery s' = '''' \<and> step s' = step_barangay \<and> calls s' = calls s)
   \<and> (let s' = handleBarangaySelect it s in
      selectedBarangay s' = Some it \<and> searchQuery s' = searchQuery s \<and> step s' = step s)
   \<and> calls (picker_event ia s e) = calls s @ expected_callbacks s e"
  by (simp add: calls_picker_event handleRegionSelect_def handleProvinceSelect_def
        handleCitySelect_def handleBarangaySelect_def Let_def split: option.splits)

theorem picker_selection_witness:
  "calls (run_picker None initial_picker sample_picks)
     = [onSelect \<lparr>region = ''Region I'', province = ''Pangasinan'', city = ''Dagupan City'',
                  barangay = ''Bonuan Binloc''\<rparr>, onClose]
   \<and> (let s = run_picker None initial_picker sample_picks;
           s' = picker_event None (picker_event None s (PressBreadcrumb step_province))
                  (PressItem \<lparr>item_id = ''0128'', item_name = ''Ilocos Norte''\<rparr>)
       in selectedCity s' = None \<and> selectedBarangay s' = None \<and> cities s' = []
          \<and> calls s' = calls s)"
proof -
  let ?s = "run_picker None initial_picker (butlast sample_picks)"
  let ?e = "PressItem \<lparr>item_id = ''015518005'', item_name = ''Bonuan Binloc''\<rparr>"
  have r: "run_picker None initial_picker sample_picks = picker_event None ?s ?e"
    by (simp add: sample_picks_def)
  have c: "calls ?s = []"
    by (simp add: sample_picks_def initial_picker_def handleRegionSelect_def
          handleProvinceSelect_def handleCitySelect_def apply_initialAddress_def)
  have e: "expected_callbacks ?s ?e = [onSelect \<lparr>region = ''Region I'', province = ''Pangasinan'',
              city = ''Dagupan City'', barangay = ''Bonuan Binloc''\<rparr>, onClose]"
    by (simp add: expected_callbacks_def sample_picks_def initial_picker_def handleRegionSelect_def
          handleProvinceSelect_def handleCitySelect_def apply_initialAddress_def)
  have "calls (picker_event None ?s ?e) = calls ?s @ expected_callbacks ?s ?e"
    using picker_selection[of _ ?s None ?e] by simp
  then have 1: "calls (run_picker None initial_picker sample_picks)
     = [onSelect \<lparr>region = ''Region I'', province = ''Pangasinan'', city = ''Dagupan City'',
                  barangay = ''Bonuan Binloc''\<rparr>, onClose]"
    by (simp add: r c e)
  have 2: "(let s = run_picker None initial_picker sample_picks;
           s' = picker_event None (picker_event None s (PressBreadcrumb step_province))
                  (PressItem \<lparr>item_id = ''0128'', item_name = ''Ilocos Norte''\<rparr>)
       in selectedCity s' = None \<and> selectedBarangay s' = None \<and> cities s' = []
          \<and> calls s' = calls s)"
    by (simp add: sample_picks_def initial_picker_def handleRegionSelect_def
          handleProvinceSelect_def handleCitySelect_def handleBarangaySelect_def
          apply_initialAddress_def breadcrumb_shown_def Let_def)
  from 1 2 show ?thesis by (rule conjI)
qed

subsection \<open>The ZIP code\<close>

lemma run_items_optional_absent: "run_items E fld True items (None, es) = (None, es)"
  by (induction items) simp_all











subsection \<open>The case of the e-mail address\<close>

lemma zparse_shape_cong:
  "\<forall>k. obj_get ob1 k = obj_get ob2 k \<Longrightarrow>
     zparse_shape E sh path ob1 = zparse_shape E sh path ob2"
  by (induction sh) auto

lemma register_cong:
  "\<forall>k. obj_get b1 k = obj_get b2 k \<Longrightarrow> register E db b1 = register E db b2"
  by (simp add: register_def validateUserRegister_def zod_parse_def zparse_shape_cong[of b1 b2])

lemma login_cong:
  "\<forall>k. obj_get b1 k = obj_get b2 k \<Longrightarrow> login E db b1 = login E db b2"
  by (simp add: login_def zod_parse_def zparse_shape_cong[of b1 b2])

lemma run_chain_agree_except:
  assumes "\<forall>k. k \<noteq> e \<longrightarrow> obj_get b1 k = obj_get b2 k" and "first_key c \<noteq> e"
  shows "snd (run_chain E c (b1, es)) = snd (run_chain E c (b2, es))
         \<and> (\<forall>k. k \<noteq> e \<longrightarrow> obj_get (fst (run_chain E c (b1, es))) k
                              = obj_get (fst (run_chain E c (b2, es))) k)
         \<and> obj_get (fst (run_chain E c (b1, es))) e = obj_get b1 e
         \<and> obj_get (fst (run_chain E c (b2, es))) e = obj_get b2 e"
proof -
  have f: "obj_get b1 (first_key c) = obj_get b2 (first_key c)" using assms by simp
  note 1 = run_chain_first_key[OF f, of E es]
  have 2: "obj_get (fst (run_chain E c (b1, es))) k = obj_get (fst (run_chain E c (b2, es))) k"
    if "k \<noteq> e" for k
  proof (cases "k = first_key c")
    case True
    then show ?thesis using 1 by simp
  next
    case False
    then show ?thesis using assms(1) that by (simp add: run_chain_other_key)
  qed
  show ?thesis using 1 2 assms(2) by (simp add: run_chain_other_key)
qed

lemma fold_run_chain_agree_except:
  assumes "\<forall>c \<in> set cs. first_key c \<noteq> e"
    and "\<forall>k. k \<noteq> e \<longrightarrow> obj_get b1 k = obj_get b2 k"
  shows "snd (fold (run_chain E) cs (b1, es)) = snd (fold (run_chain E) cs (b2, es))
         \<and> (\<forall>k. k \<noteq> e \<longrightarrow> obj_get (fst (fold (run_chain E) cs (b1, es))) k
                              = obj_get (fst (fold (run_chain E) cs (b2, es))) k)
         \<and> obj_get (fst (fold (run_chain E) cs (b1, es))) e = obj_get b1 e
         \<and> obj_get (fst (fold (run_chain E) cs (b2, es))) e = obj_get b2 e"
  using assms
proof (induction cs arbitrary: b1 b2 es)
  case Nil
  then show ?case by simp
next
  case (Cons c cs)
  obtain c1 e1 where r1: "run_chain E c (b1, es) = (c1, e1)" by (cases "run_chain E c (b1, es)")
  obtain c2 e2 where r2: "run_chain E c (b2, es) = (c2, e2)" by (cases "run_chain E c (b2, es)")
  have fk: "first_key c \<noteq> e" using Cons.prems(1) by simp
  note s = run_chain_agree_except[OF Cons.prems(2) fk, of E es]
  have ee: "e1 = e2" and a: "\<forall>k. k \<noteq> e \<longrightarrow> obj_get c1 k = obj_get c2 k"
    and k1: "obj_get c1 e = obj_get b1 e" and k2: "obj_get c2 e = obj_get b2 e"
    using s r1 r2 by simp_all
  have rest: "\<forall>c \<in> set cs. first_key c \<noteq> e" using Cons.prems(1) by simp
  show ?case using Cons.IH[OF rest a, of e2] r1 r2 ee k1 k2 by simp
qed

lemma run_chain_agree:
  assumes "\<forall>k. obj_get b1 k = obj_get b2 k"
  shows "snd (run_chain E c (b1, es)) = snd (run_chain E c (b2, es))
         \<and> (\<forall>k. obj_get (fst (run_chain E c (b1, es))) k
                  = obj_get (fst (run_chain E c (b2, es))) k)"
proof -
  have f: "obj_get b1 (first_key c) = obj_get b2 (first_key c)" using assms by simp
  note 1 = run_chain_first_key[OF f, of E es]
  have "obj_get (fst (run_chain E c (b1, es))) k = obj_get (fst (run_chain E c (b2, es))) k" for k
    by (cases "k = first_key c") (use 1 assms in \<open>simp_all add: run_chain_other_key\<close>)
  then show ?thesis using 1 by simp
qed

lemma fold_run_chain_agree:
  assumes "\<forall>k. obj_get b1 k = obj_get b2 k"
  shows "snd (fold (run_chain E) cs (b1, es)) = snd (fold (run_chain E) cs (b2, es))
         \<and> (\<forall>k. obj_get (fst (fold (run_chain E) cs (b1, es))) k
                  = obj_get (fst (fold (run_chain E) cs (b2, es))) k)"
  using assms
proof (induction cs arbitrary: b1 b2 es)
  case Nil
  then show ?case by simp
next
  case (Cons c cs)
  obtain c1 e1 where r1: "run_chain E c (b1, es) = (c1, e1)" by (cases "run_chain E c (b1, es)")
  obtain c2 e2 where r2: "run_chain E c (b2, es) = (c2, e2)" by (cases "run_chain E c (b2, es)")
  note s = run_chain_agree[OF Cons.prems, of E c es]
  have ee: "e1 = e2" and a: "\<forall>k. obj_get c1 k = obj_get c2 k"
    using s r1 r2 by simp_all
  show ?case using Cons.IH[OF a, of e2] r1 r2 ee by simp
qed

lemma toLowerCase_empty: "toLowerCase e = [] \<longleftrightarrow> e = []"
  by (simp add: toLowerCase_def)

lemma same_up_to_case_lowered:
  assumes "same_up_to_case x y"
  shows "(case x of JStr s \<Rightarrow> toLowerCase s | _ \<Rightarrow> toString E (Some x))
           = (case y of JStr s \<Rightarrow> toLowerCase s | _ \<Rightarrow> toString E (Some y))"
  using assms by (cases x; cases y) (simp_all add: same_up_to_case_def)

lemma email_items_not_optional:
  "is_optional (notEmpty m) = False" "is_optional toLowerCase_s = False"
  "is_optional trim_s = False"
  by (simp_all add: notEmpty_def toLowerCase_s_def trim_s_def)

text \<open>
  What the e-mail chain leaves in the request: the normalised address, in lower case when
  it is a string, then trimmed.
\<close>

lemma email_items_run:
  "run_items E ''email'' False
      [notEmpty ''Email is required'', Validator (isEmail E) False ''Must be a valid email'',
       Sanitizer (normalizeEmail E), toLowerCase_s, trim_s] (Some (JStr e), [])
     = (Some (JStr (trim (case normalizeEmail E e of
                            JStr s \<Rightarrow> toLowerCase s
                          | _ \<Rightarrow> toString E (Some (normalizeEmail E e))))),
        (if e = [] then [(''email'', ''Email is required'')] else [])
        @ (if isEmail E e then [] else [(''email'', ''Must be a valid email'')]))"
  by (cases "normalizeEmail E e") (simp_all add: notEmpty_def toLowerCase_s_def trim_s_def)

lemma email_chain_run:
  assumes "obj_get b ''email'' = Some (JStr e)"
  shows "snd (run_chain E (email_chain E) (b, es))
           = es @ (if e = [] then [(''email'', ''Email is required'')] else [])
                @ (if isEmail E e then [] else [(''email'', ''Must be a valid email'')])"
    and "obj_get (fst (run_chain E (email_chain E) (b, es))) ''email''
           = Some (JStr (trim (case normalizeEmail E e of
                                 JStr s \<Rightarrow> toLowerCase s
                               | _ \<Rightarrow> toString E (Some (normalizeEmail E e)))))"
  using assms
  by (simp_all add: run_chain_def email_chain_def body_def Let_def obj_get_set
        email_items_not_optional email_items_run del: run_items.simps)

lemma email_chain_case:
  assumes "isEmail E (toLowerCase e) = isEmail E e"
    and "same_up_to_case (normalizeEmail E (toLowerCase e)) (normalizeEmail E e)"
    and "\<forall>k. k \<noteq> ''email'' \<longrightarrow> obj_get b1 k = obj_get b2 k"
    and "obj_get b1 ''email'' = Some (JStr (toLowerCase e))"
    and "obj_get b2 ''email'' = Some (JStr e)"
  shows "snd (run_chain E (email_chain E) (b1, es)) = snd (run_chain E (email_chain E) (b2, es))
         \<and> (\<forall>k. obj_get (fst (run_chain E (email_chain E) (b1, es))) k
                  = obj_get (fst (run_chain E (email_chain E) (b2, es))) k)"
proof -
  have fk: "first_key (email_chain E) = ''email''"
    by (simp add: first_key_def email_chain_def body_def)
  have o: "obj_get (fst (run_chain E (email_chain E) (b1, es))) k
             = obj_get (fst (run_chain E (email_chain E) (b2, es))) k" if "k \<noteq> ''email''" for k
    using that assms(3) fk by (simp add: run_chain_other_key)
  have errs: "snd (run_chain E (email_chain E) (b1, es))
                = snd (run_chain E (email_chain E) (b2, es))"
    unfolding email_chain_run(1)[OF assms(4)] email_chain_run(1)[OF assms(5)]
    using assms(1) by (simp add: toLowerCase_empty)
  have val: "obj_get (fst (run_chain E (email_chain E) (b1, es))) ''email''
               = obj_get (fst (run_chain E (email_chain E) (b2, es))) ''email''"
    unfolding email_chain_run(2)[OF assms(4)] email_chain_run(2)[OF assms(5)]
    using same_up_to_case_lowered[OF assms(2), of E] by simp
  show ?thesis
  proof (intro conjI allI)
    show "snd (run_chain E (email_chain E) (b1, es)) = snd (run_chain E (email_chain E) (b2, es))"
      by (rule errs)
  next
    fix k
    show "obj_get (fst (run_chain E (email_chain E) (b1, es))) k
            = obj_get (fst (run_chain E (email_chain E) (b2, es))) k"
      by (cases "k = ''email''") (use val o in simp_all)
  qed
qed

lemma chains_email_case:
  assumes "isEmail E (toLowerCase e) = isEmail E e"
    and "same_up_to_case (normalizeEmail E (toLowerCase e)) (normalizeEmail E e)"
    and "\<forall>c \<in> set cs1. first_key c \<noteq> ''email''"
  shows "snd (run_chains E (cs1 @ email_chain E # cs2) (obj_set ''email'' (JStr (toLowerCase e)) req))
           = snd (run_chains E (cs1 @ email_chain E # cs2) (obj_set ''email'' (JStr e) req))
         \<and> (\<forall>k. obj_get (fst (run_chains E (cs1 @ email_chain E # cs2)
                                 (obj_set ''email'' (JStr (toLowerCase e)) req))) k
                  = obj_get (fst (run_chains E (cs1 @ email_chain E # cs2)
                                 (obj_set ''email'' (JStr e) req))) k)"
proof -
  let ?b1 = "obj_set ''email'' (JStr (toLowerCase e)) req"
  let ?b2 = "obj_set ''email'' (JStr e) req"
  have a0: "\<forall>k. k \<noteq> ''email'' \<longrightarrow> obj_get ?b1 k = obj_get ?b2 k" by (simp add: obj_get_set)
  obtain c1 e1 where r1: "fold (run_chain E) cs1 (?b1, []) = (c1, e1)"
    by (cases "fold (run_chain E) cs1 (?b1, [])")
  obtain c2 e2 where r2: "fold (run_chain E) cs1 (?b2, []) = (c2, e2)"
    by (cases "fold (run_chain E) cs1 (?b2, [])")
  note s = fold_run_chain_agree_except[OF assms(3) a0, of E "[]"]
  have ee: "e1 = e2" and a: "\<forall>k. k \<noteq> ''email'' \<longrightarrow> obj_get c1 k = obj_get c2 k"
    and k1: "obj_get c1 ''email'' = Some (JStr (toLowerCase e))"
    and k2: "obj_get c2 ''email'' = Some (JStr e)"
    using s r1 r2 by (simp_all add: obj_get_set)
  obtain d1 f1 where q1: "run_chain E (email_chain E) (c1, e1) = (d1, f1)"
    by (cases "run_chain E (email_chain E) (c1, e1)")
  obtain d2 f2 where q2: "run_chain E (email_chain E) (c2, e2) = (d2, f2)"
    by (cases "run_chain E (email_chain E) (c2, e2)")
  note t = email_chain_case[OF assms(1,2) a k1 k2, of e2]
  have ff: "f1 = f2" and b: "\<forall>k. obj_get d1 k = obj_get d2 k"
    using t q1 q2 ee by simp_all
  show ?thesis
    using fold_run_chain_agree[OF b, of E cs2 f2] r1 r2 q1 q2 ff
    by (simp add: run_chains_def)
qed

lemma registerValidator_email:
  "registerValidator E
     = take 4 (registerValidator E) @ email_chain E # drop 5 (registerValidator E)"
  by (simp add: registerValidator_def email_chain_def)

lemma registerValidator_before_email:
  "\<forall>c \<in> set (take 4 (registerValidator E)). first_key c \<noteq> ''email''"
  by (simp add: registerValidator_def first_key_def body_def)

lemma loginValidator_email:
  "loginValidator E = [] @ email_chain E # [body ''password'' [notEmpty ''Password is required'']]"
  by (simp add: loginValidator_def email_chain_def)

text \<open>The schema's own setters: an address is stored trimmed and in lower case.\<close>

lemma lower_char_idem: "lower_char (lower_char c) = lower_char c"
  by (simp add: lower_char_def)

lemma toLowerCase_idem: "toLowerCase (toLowerCase s) = toLowerCase s"
  by (simp add: toLowerCase_def lower_char_idem)

lemma mongoose_new_email:
  "email (snd (mongoose_new E ob))
     = map_option (\<lambda>s. toLowerCase (trim s))
         (snd (castString E ''email'' None (obj_get ob ''email'')))"
  by (simp add: mongoose_new_def Let_def)

lemma presave_email: "email (presave_transform E (presave_hash E pm u)) = email u"
  by (simp add: presave_transform_def presave_hash_def Let_def split: option.splits)

lemma validated_email: "mongoose_validate u = [] \<Longrightarrow> email u \<noteq> None"
  by (auto simp: mongoose_validate_def required_string_def split: if_splits)

lemma registered_email_lower_case:
  assumes "route_register E db req = (r, db @ [u])"
  shows "\<exists>s. email u = Some s \<and> toLowerCase s = s"
proof -
  from route_register_outcome[of E db req] assms
  obtain md where c: "mongoose_create E db (forced_fields md) = Inr u" by auto
  obtain ce d where n: "mongoose_new E (forced_fields md) = (ce, d)"
    by (cases "mongoose_new E (forced_fields md)")
  from c n obtain saved where s: "mongoose_save E True ce d = Inr saved"
    and u: "u = saved\<lparr>created_at := Some (now E), updated_at := Some (now E),
                      version_key := Some 0\<rparr>"
    by (auto simp: mongoose_create_def Let_def split: sum.splits option.splits)
  from s have v: "mongoose_validate d = []"
    and sv: "saved = presave_transform E (presave_hash E True d)"
    by (auto dest: mongoose_save_Inr)
  have eu: "email u = email d" by (simp add: u sv presave_email)
  from mongoose_new_email[of E "forced_fields md"] n
  have "email d = map_option (\<lambda>s. toLowerCase (trim s))
                    (snd (castString E ''email'' None (obj_get (forced_fields md) ''email'')))"
    by simp
  with validated_email[OF v] obtain s where "email d = Some (toLowerCase (trim s))"
    by (cases "snd (castString E ''email'' None (obj_get (forced_fields md) ''email''))") auto
  then show ?thesis using eu by (simp add: toLowerCase_idem)
qed

text \<open>
  C10. Registering or logging in with an address does exactly what doing so with its
  lower-case form does: the same answer and the same collection. Of validator.js this
  asks that \<open>isEmail\<close> judges the address and its lower-case form alike, and that
  \<open>normalizeEmail\<close> gives for the two results that differ at most in the case of
  letters; it is the \<open>toLowerCase\<close> of the validation chains that then makes the two
  requests the same.
\<close>

theorem email_case_is_immaterial:
  assumes "isEmail E (toLowerCase e) = isEmail E e"
    and "same_up_to_case (normalizeEmail E (toLowerCase e)) (normalizeEmail E e)"
  shows "route_register E db (obj_set ''email'' (JStr (toLowerCase e)) req)
           = route_register E db (obj_set ''email'' (JStr e) req)
         \<and> route_login E db (obj_set ''email'' (JStr (toLowerCase e)) req)
           = route_login E db (obj_set ''email'' (JStr e) req)"
proof
  let ?b1 = "obj_set ''email'' (JStr (toLowerCase e)) req"
  let ?b2 = "obj_set ''email'' (JStr e) req"
  have "snd (run_chains E (take 4 (registerValidator E) @ email_chain E
               # drop 5 (registerValidator E)) ?b1)
           = snd (run_chains E (take 4 (registerValidator E) @ email_chain E
               # drop 5 (registerValidator E)) ?b2)
         \<and> (\<forall>k. obj_get (fst (run_chains E (take 4 (registerValidator E) @ email_chain E
               # drop 5 (registerValidator E)) ?b1)) k
                  = obj_get (fst (run_chains E (take 4 (registerValidator E) @ email_chain E
               # drop 5 (registerValidator E)) ?b2)) k)"
    using assms registerValidator_before_email by (rule chains_email_case)
  then have r: "snd (run_chains E (registerValidator E) ?b1)
                  = snd (run_chains E (registerValidator E) ?b2)
         \<and> (\<forall>k. obj_get (fst (run_chains E (registerValidator E) ?b1)) k
                  = obj_get (fst (run_chains E (registerValidator E) ?b2)) k)"
    using registerValidator_email[of E] by simp
  obtain s1 e1 where r1: "run_chains E (registerValidator E) ?b1 = (s1, e1)"
    by (cases "run_chains E (registerValidator E) ?b1")
  obtain s2 e2 where r2: "run_chains E (registerValidator E) ?b2 = (s2, e2)"
    by (cases "run_chains E (registerValidator E) ?b2")
  have "e1 = e2" and "\<forall>k. obj_get s1 k = obj_get s2 k" using r r1 r2 by simp_all
  then show "route_register E db ?b1 = route_register E db ?b2"
    using register_cong[of s1 s2 E db]
    by (simp add: route_register_def r1 r2 split: option.splits)
next
  let ?b1 = "obj_set ''email'' (JStr (toLowerCase e)) req"
  let ?b2 = "obj_set ''email'' (JStr e) req"
  have "snd (run_chains E ([] @ email_chain E
               # [body ''password'' [notEmpty ''Password is required'']]) ?b1)
           = snd (run_chains E ([] @ email_chain E
               # [body ''password'' [notEmpty ''Password is required'']]) ?b2)
         \<and> (\<forall>k. obj_get (fst (run_chains E ([] @ email_chain E
               # [body ''password'' [notEmpty ''Password is required'']]) ?b1)) k
                  = obj_get (fst (run_chains E ([] @ email_chain E
               # [body ''password'' [notEmpty ''Password is required'']]) ?b2)) k)"
    using assms by (rule chains_email_case) simp
  then have r: "snd (run_chains E (loginValidator E) ?b1)
                  = snd (run_chains E (loginValidator E) ?b2)
         \<and> (\<forall>k. obj_get (fst (run_chains E (loginValidator E) ?b1)) k
                  = obj_get (fst (run_chains E (loginValidator E) ?b2)) k)"
    using loginValidator_email[of E] by simp
  obtain s1 e1 where r1: "run_chains E (loginValidator E) ?b1 = (s1, e1)"
    by (cases "run_chains E (loginValidator E) ?b1")
  obtain s2 e2 where r2: "run_chains E (loginValidator E) ?b2 = (s2, e2)"
    by (cases "run_chains E (loginValidator E) ?b2")
  have "e1 = e2" and "\<forall>k. obj_get s1 k = obj_get s2 k" using r r1 r2 by simp_all
  then show "route_login E db ?b1 = route_login E db ?b2"
    using login_cong[of s1 s2 E db]
    by (simp add: route_login_def r1 r2 split: option.splits)
qed

theorem email_case_is_immaterial_witness:
  "isEmail case_keeping_env (toLowerCase ''Maria.Santos@Example.com'')
     = isEmail case_keeping_env ''Maria.Santos@Example.com''
   \<and> same_up_to_case
       (normalizeEmail case_keeping_env (toLowerCase ''Maria.Santos@Example.com''))
       (normalizeEmail case_keeping_env ''Maria.Santos@Example.com'')
   \<and> normalizeEmail case_keeping_env (toLowerCase ''Maria.Santos@Example.com'')
       \<noteq> normalizeEmail case_keeping_env ''Maria.Santos@Example.com''
   \<and> route_register case_keeping_env []
        (obj_set ''email'' (JStr (toLowerCase ''Maria.Santos@Example.com'')) sample_registration)
     = route_register case_keeping_env [] sample_registration
   \<and> route_login case_keeping_env [sample_user]
        (obj_set ''email'' (JStr (toLowerCase ''Maria.Santos@Example.com'')) sample_login)
     = route_login case_keeping_env [sample_user] sample_login
   \<and> status_code (fst (route_register case_keeping_env [] sample_registration)) = 201
   \<and> map email (snd (route_register case_keeping_env [] sample_registration))
     = [Some ''maria.santos@example.com'']
   \<and> status_code (fst (route_login case_keeping_env [sample_user] sample_login)) = 200"
proof -
  have a: "isEmail case_keeping_env (toLowerCase ''Maria.Santos@Example.com'')
     = isEmail case_keeping_env ''Maria.Santos@Example.com''" by code_simp
  have b: "same_up_to_case
       (normalizeEmail case_keeping_env (toLowerCase ''Maria.Santos@Example.com''))
       (normalizeEmail case_keeping_env ''Maria.Santos@Example.com'')" by code_simp
  have n: "normalizeEmail case_keeping_env (toLowerCase ''Maria.Santos@Example.com'')
       \<noteq> normalizeEmail case_keeping_env ''Maria.Santos@Example.com''" by code_simp
  have c: "obj_set ''email'' (JStr ''Maria.Santos@Example.com'') sample_registration
             = sample_registration" by code_simp
  have d: "obj_set ''email'' (JStr ''Maria.Santos@Example.com'') sample_login = sample_login"
    by code_simp
  have f: "status_code (fst (route_register case_keeping_env [] sample_registration)) = 201"
    by code_simp
  have g: "map email (snd (route_register case_keeping_env [] sample_registration))
             = [Some ''maria.santos@example.com'']" by code_simp
  have h: "status_code (fst (route_login case_keeping_env [sample_user] sample_login)) = 200"
    by code_simp
  from email_case_is_immaterial[OF a b, of "[]" sample_registration]
  have r: "route_register case_keeping_env []
        (obj_set ''email'' (JStr (toLowerCase ''Maria.Santos@Example.com'')) sample_registration)
     = route_register case_keeping_env [] sample_registration"
    unfolding c by (rule conjunct1)
  from email_case_is_immaterial[OF a b, of "[sample_user]" sample_login]
  have l: "route_login case_keeping_env [sample_user]
        (obj_set ''email'' (JStr (toLowerCase ''Maria.Santos@Example.com'')) sample_login)
     = route_login case_keeping_env [sample_user] sample_login"
    unfolding d by (rule conjunct2)
  from a b n r l f g h show ?thesis by (intro conjI)
qed

subsection \<open>Further facts\<close>

lemma picker_event_steps_selected:
  "picker_steps_selected s \<Longrightarrow> picker_steps_selected (picker_event ia s e)"
  by (cases e)
     (auto simp: picker_steps_selected_def handleRegionSelect_def handleProvinceSelect_def
        handleCitySelect_def handleBarangaySelect_def goBack_def resetSelection_def
        apply_initialAddress_def breadcrumb_shown_def Let_def
      split: pstep.splits option.splits if_splits)

lemma run_picker_steps_selected:
  "picker_steps_selected s \<Longrightarrow> picker_steps_selected (run_picker ia s es)"
  by (induction es arbitrary: s) (simp_all add: picker_event_steps_selected)

lemma reachable_barangay_press_emits:
  assumes "s = run_picker ia initial_picker es" and "step s = step_barangay"
  shows "\<exists>r p c. selectedRegion s = Some r \<and> selectedProvince s = Some p
           \<and> selectedCity s = Some c
           \<and> calls (picker_event ia s (PressItem it))
               = calls s @ [onSelect \<lparr>region = item_name r, province = item_name p,
                                       city = item_name c, barangay = item_name it\<rparr>, onClose]"
proof -
  have "picker_steps_selected initial_picker"
    by (simp add: picker_steps_selected_def initial_picker_def)
  then have "picker_steps_selected s"
    unfolding assms(1) by (rule run_picker_steps_selected)
  with assms(2) obtain r p c where
    "selectedRegion s = Some r" "selectedProvince s = Some p" "selectedCity s = Some c"
    by (auto simp: picker_steps_selected_def)
  then show ?thesis using assms(2) by (simp add: handleBarangaySelect_def)
qed

lemma zip_code_chain_accepts_absence:
  assumes "get_path b [''address'', ''zip_code''] = None"
  shows "run_chain E (body ''address.zip_code''
            [Optional, default_s (JStr ''''), matches matches_zip ''ZIP code must be 4 digits'',
             trim_s]) (b, es) = (b, es)"
  using assms by (simp add: run_chain_def body_def Let_def run_items_optional_absent)

lemma zip_code_chain_rejects_other_strings:
  assumes "get_path b [''address'', ''zip_code''] = Some (JStr z)" and "\<not> matches_zip z"
  shows "(''address.zip_code'', ''ZIP code must be 4 digits'')
           \<in> set (snd (run_chain E (body ''address.zip_code''
                [Optional, default_s (JStr ''''),
                 matches matches_zip ''ZIP code must be 4 digits'', trim_s]) (b, es)))"
  using assms
  by (auto simp: run_chain_def body_def Let_def default_s_def matches_def trim_s_def
        matches_zip_def)

end
